theory Spec2Isabelle
  imports Main
begin

section \<open>Certificate issuance, verification and revocation of Medieventhub\<close>

text \<open>
  The development embeds the certificate subsystem of the repository:
  \<^item> the table declarations of the shared schema (tables \<open>users\<close>, \<open>events\<close>,
    \<open>event_speakers\<close>, \<open>event_schedules\<close>, \<open>event_registrations\<close>, \<open>certificates\<close>,
    \<open>activity_logs\<close>);
  \<^item> the storage functions \<open>generateCertificate\<close>, \<open>getCertificateByNumber\<close>,
    \<open>revokeCertificate\<close>, \<open>deleteEvent\<close> and \<open>logActivity\<close>;
  \<^item> the three route handlers \<open>POST /registrations/:id/certificate\<close>,
    \<open>GET /certificates/verify/:number\<close> and \<open>POST /certificates/:id/revoke\<close>;
  \<^item> the helpers of \<open>server/utils/certificate.ts\<close>.

  The database is a record of tables, each table a list of rows in storage order. Every
  storage function takes the database and returns its result with the new database. A
  statement that Postgres rejects (a unique, primary-key, foreign-key or length
  constraint declared in the schema) is an \<open>Inl\<close> result; the handlers turn it into the
  500 answer of their \<open>catch\<close> block. A storage call runs to its end before the next
  one starts, unless said otherwise. Route
  parameters are taken after \<open>parseInt\<close>, as integers. Columns that no modelled function
  reads or writes are left out of the rows.
\<close>

subsection \<open>Rows and tables\<close>

type_synonym timestamp = int

record user =
  user_id :: int
  fullName :: string
  email :: string
  organization :: "string option"
  position :: "string option"

record event =
  event_id :: int
  title :: string
  startDate :: timestamp
  endDate :: timestamp

text \<open>
  Tables \<open>event_speakers\<close> and \<open>event_schedules\<close>, with the columns that decide whether
  an event can be deleted: a schedule may name a speaker, and that reference has no
  \<open>onDelete\<close> action.
\<close>

record eventSpeaker =
  speaker_id :: int
  speaker_eventId :: int

record eventSchedule =
  schedule_id :: int
  schedule_eventId :: int
  speakerId :: "int option"

datatype registration_status = Pending | Approved | Rejected

record eventRegistration =
  reg_id :: int
  eventId :: int
  userId :: int
  status :: registration_status
  attendanceConfirmed :: "bool option"

text \<open>
  Table \<open>certificates\<close>. The column \<open>is_revoked\<close> has default \<open>false\<close> and every write of
  the repository stores \<open>true\<close> or \<open>false\<close>, so it is a \<open>bool\<close>; the three nullable
  revocation columns are options.
\<close>

record certificate =
  cert_id :: int
  registrationId :: int
  certificateNumber :: string
  qrCode :: string
  issuedDate :: timestamp
  isRevoked :: bool
  revokedReason :: "string option"
  revokedDate :: "timestamp option"
  revokedById :: "int option"
  createdAt :: timestamp
  updatedAt :: timestamp

datatype logAction = Generate_certificate | Revoke_certificate | Verify_certificate

record activityLog =
  log_userId :: int
  log_action :: logAction
  log_details :: "(string \<times> string) list"
  log_resourceType :: string
  log_resourceId :: int

record database =
  users :: "user list"
  events :: "event list"
  eventSpeakers :: "eventSpeaker list"
  eventSchedules :: "eventSchedule list"
  eventRegistrations :: "eventRegistration list"
  certificates :: "certificate list"
  certificates_id_seq :: int
  activityLogs :: "activityLog list"

datatype db_error =
  InvalidText | NumericValueOutOfRange | ValueTooLong | UniqueViolation | ForeignKeyViolation

text \<open>
  Two rejections come from the column types. Postgres accepts no text that holds the
  character U+0000, as a value or as a query parameter. And an integer column is 32 bits
  wide: no row holds an id outside that range, and a query that carries such an id is
  rejected. A rejected statement changes nothing. The texts that are checked are those
  that can arrive with a request: the number of the verification route, the reason of a
  revocation, and the number given to an insertion. The image is the data URL that the
  QR library returns, in base64, and is stored as it is.
\<close>

definition pg_text :: "string \<Rightarrow> bool" where
  "pg_text s = (CHR 0x00 \<notin> set s)"

text \<open>
  A string is the UTF-8 bytes of a text. \<open>varchar(50)\<close> limits the number of characters:
  the bytes that are not continuation bytes.
\<close>

definition char_count :: "string \<Rightarrow> nat" where
  "char_count s = length (filter (\<lambda>c. \<not> (128 \<le> (of_char c :: nat) \<and> (of_char c :: nat) < 192)) s)"

definition pg_integer :: "int \<Rightarrow> bool" where
  "pg_integer i = (- 2147483648 \<le> i \<and> i \<le> 2147483647)"

subsection \<open>Storage functions\<close>

text \<open>
  \<open>const [row] = await db.update(...).returning()\<close> binds the first returned row, and
  \<open>undefined\<close> (here \<open>None\<close>) when no row was returned.
\<close>

definition first_row :: "'a list \<Rightarrow> 'a option" where
  "first_row rows = (case rows of [] \<Rightarrow> None | r # _ \<Rightarrow> Some r)"

text \<open>
  \<open>db.update(certificates).set(...).where(eq(certificates.id, i)).returning()\<close>: the new
  table and the updated rows.
\<close>

definition update_certificates_where_id ::
  "int \<Rightarrow> (certificate \<Rightarrow> certificate) \<Rightarrow> certificate list \<Rightarrow> certificate list \<times> certificate list" where
  "update_certificates_where_id i f cs =
     (map (\<lambda>c. if cert_id c = i then f c else c) cs, map f (filter (\<lambda>c. cert_id c = i) cs))"

text \<open>The \<open>set\<close> clause of the reissue branch of \<open>storage.generateCertificate\<close>.\<close>

definition reissue_set :: "string \<Rightarrow> timestamp \<Rightarrow> timestamp \<Rightarrow> certificate \<Rightarrow> certificate" where
  "reissue_set qr now1 now2 c =
     c\<lparr>isRevoked := False, revokedReason := None, revokedDate := None, revokedById := None,
       qrCode := qr, issuedDate := now1, updatedAt := now2\<rparr>"

text \<open>
  \<open>db.insert(certificates).values({registrationId, certificateNumber, qrCode, issuedDate})\<close>.
  A number that is no text or has more characters than the \<open>varchar(50)\<close> column takes,
  or a registration id outside the 32-bit range, is rejected before a row is formed.
  Otherwise the id is the next value of the serial
  sequence, which stays consumed when a constraint then rejects the row: the primary
  key, \<open>unique\<close> on the number, and the reference to \<open>event_registrations\<close>. The other
  columns take their defaults.
\<close>

definition insert_certificate ::
  "database \<Rightarrow> int \<Rightarrow> string \<Rightarrow> string \<Rightarrow> timestamp \<Rightarrow> timestamp \<Rightarrow> (db_error + certificate) \<times> database" where
  "insert_certificate db rid num qr now1 now2 =
     (let i = certificates_id_seq db + 1;
          db1 = db\<lparr>certificates_id_seq := i\<rparr>;
          row = \<lparr>cert_id = i, registrationId = rid, certificateNumber = num, qrCode = qr,
                 issuedDate = now1, isRevoked = False, revokedReason = None,
                 revokedDate = None, revokedById = None, createdAt = now2, updatedAt = now2\<rparr>
      in if \<not> pg_text num then (Inl InvalidText, db)
         else if 50 < char_count num then (Inl ValueTooLong, db)
         else if \<not> pg_integer rid \<and> rid \<notin> set (map reg_id (eventRegistrations db))
           then (Inl NumericValueOutOfRange, db)
         else if i \<in> set (map cert_id (certificates db)) then (Inl UniqueViolation, db1)
         else if num \<in> set (map certificateNumber (certificates db)) then (Inl UniqueViolation, db1)
         else if rid \<notin> set (map reg_id (eventRegistrations db)) then (Inl ForeignKeyViolation, db1)
         else (Inr row, db1\<lparr>certificates := certificates db @ [row]\<rparr>))"

text \<open>
  \<open>storage.generateCertificate(registrationId, qrCode, certificateNumber)\<close>. \<open>now1\<close> and
  \<open>now2\<close> are the two clock readings of the call: the two \<open>new Date()\<close> of the reissue
  branch, or \<open>new Date()\<close> and the database's \<open>now()\<close> of the insertion. A registration
  id outside the 32-bit range is the id of no row; the lookup that carries it is
  rejected.
\<close>

definition storage_generateCertificate ::
  "database \<Rightarrow> int \<Rightarrow> string \<Rightarrow> string \<Rightarrow> timestamp \<Rightarrow> timestamp
     \<Rightarrow> (db_error + certificate option) \<times> database" where
  "storage_generateCertificate db rid qr num now1 now2 =
     (case find (\<lambda>c. registrationId c = rid) (certificates db) of
        Some existingCertificate \<Rightarrow>
          if isRevoked existingCertificate then
            (let (cs, returned) = update_certificates_where_id (cert_id existingCertificate)
                                    (reissue_set qr now1 now2) (certificates db)
             in (Inr (first_row returned), db\<lparr>certificates := cs\<rparr>))
          else (Inr (Some existingCertificate), db)
      | None \<Rightarrow>
          if \<not> pg_integer rid \<and> rid \<notin> set (map reg_id (eventRegistrations db))
          then (Inl NumericValueOutOfRange, db)
          else
            (case insert_certificate db rid num qr now1 now2 of
               (Inl e, db1) \<Rightarrow> (Inl e, db1)
             | (Inr row, db1) \<Rightarrow> (Inr (Some row), db1)))"

text \<open>
  The function awaits twice: the query \<open>findFirst\<close>, then the update or the insertion.
  Another request can run between the two. The two phases, the second acting on the
  answer of the first, for the runs in which calls interleave:
\<close>

definition generate_lookup :: "database \<Rightarrow> int \<Rightarrow> certificate option" where
  "generate_lookup db rid = find (\<lambda>c. registrationId c = rid) (certificates db)"

definition generate_write ::
  "database \<Rightarrow> certificate option \<Rightarrow> int \<Rightarrow> string \<Rightarrow> string \<Rightarrow> timestamp \<Rightarrow> timestamp
     \<Rightarrow> (db_error + certificate option) \<times> database" where
  "generate_write db looked_up rid qr num now1 now2 =
     (case looked_up of
        Some existingCertificate \<Rightarrow>
          if isRevoked existingCertificate then
            (let (cs, returned) = update_certificates_where_id (cert_id existingCertificate)
                                    (reissue_set qr now1 now2) (certificates db)
             in (Inr (first_row returned), db\<lparr>certificates := cs\<rparr>))
          else (Inr (Some existingCertificate), db)
      | None \<Rightarrow>
          if \<not> pg_integer rid \<and> rid \<notin> set (map reg_id (eventRegistrations db))
          then (Inl NumericValueOutOfRange, db)
          else
            (case insert_certificate db rid num qr now1 now2 of
               (Inl e, db1) \<Rightarrow> (Inl e, db1)
             | (Inr row, db1) \<Rightarrow> (Inr (Some row), db1)))"

text \<open>The \<open>set\<close> clause of \<open>storage.revokeCertificate\<close>.\<close>

definition revoke_set :: "int \<Rightarrow> string \<Rightarrow> timestamp \<Rightarrow> timestamp \<Rightarrow> certificate \<Rightarrow> certificate" where
  "revoke_set actor reason now1 now2 c =
     c\<lparr>isRevoked := True, revokedReason := Some reason, revokedDate := Some now1,
       revokedById := Some actor, updatedAt := now2\<rparr>"

text \<open>
  \<open>storage.revokeCertificate(id, revokedById, reason)\<close>: an unconditional update of the
  rows with that id. The statement is rejected when the reason is no text, or when one of
  the two ids is outside the 32-bit range (it is then the id of no row).
  \<open>revoked_by_id\<close> references \<open>users\<close>, which is checked when a row is written.
\<close>

definition storage_revokeCertificate ::
  "database \<Rightarrow> int \<Rightarrow> int \<Rightarrow> string \<Rightarrow> timestamp \<Rightarrow> timestamp
     \<Rightarrow> (db_error + certificate option) \<times> database" where
  "storage_revokeCertificate db i actor reason now1 now2 =
     (let (cs, returned) = update_certificates_where_id i (revoke_set actor reason now1 now2)
                             (certificates db)
      in if \<not> pg_text reason then (Inl InvalidText, db)
         else if \<not> pg_integer i \<and> returned = [] then (Inl NumericValueOutOfRange, db)
         else if \<not> pg_integer actor \<and> actor \<notin> set (map user_id (users db))
           then (Inl NumericValueOutOfRange, db)
         else if returned \<noteq> [] \<and> actor \<notin> set (map user_id (users db))
           then (Inl ForeignKeyViolation, db)
         else (Inr (first_row returned), db\<lparr>certificates := cs\<rparr>))"

text \<open>
  \<open>storage.deleteEvent(id)\<close> deletes the event rows with that id. The schema declares
  \<open>onDelete: "cascade"\<close> from \<open>event_registrations.event_id\<close> to \<open>events\<close> and from
  \<open>certificates.registration_id\<close> to \<open>event_registrations\<close>, so the registrations of a
  deleted event and the certificates of those registrations go with it; so do the
  speakers and the schedules of the event (and its documents, which are not modelled).
  The deletion is rejected, and nothing changes, when a schedule that stays refers to a
  speaker that would go, or when the id is outside the 32-bit range.
\<close>

definition storage_deleteEvent :: "database \<Rightarrow> int \<Rightarrow> (db_error + event option) \<times> database" where
  "storage_deleteEvent db i =
     (let deletedEvents = filter (\<lambda>e. event_id e = i) (events db);
          deletedRegs = filter (\<lambda>r. eventId r \<in> set (map event_id deletedEvents)) (eventRegistrations db);
          deletedSpeakers =
            filter (\<lambda>p. speaker_eventId p \<in> set (map event_id deletedEvents)) (eventSpeakers db);
          keptSchedules =
            filter (\<lambda>s. schedule_eventId s \<notin> set (map event_id deletedEvents)) (eventSchedules db)
      in if \<not> pg_integer i \<and> deletedEvents = [] then (Inl NumericValueOutOfRange, db)
         else if \<exists>s \<in> set keptSchedules. \<exists>p \<in> set deletedSpeakers. speakerId s = Some (speaker_id p)
           then (Inl ForeignKeyViolation, db)
         else
           (Inr (first_row deletedEvents),
            db\<lparr>events := filter (\<lambda>e. event_id e \<noteq> i) (events db),
               eventSpeakers :=
                 filter (\<lambda>p. speaker_eventId p \<notin> set (map event_id deletedEvents)) (eventSpeakers db),
               eventSchedules := keptSchedules,
               eventRegistrations :=
                 filter (\<lambda>r. eventId r \<notin> set (map event_id deletedEvents)) (eventRegistrations db),
               certificates :=
                 filter (\<lambda>c. registrationId c \<notin> set (map reg_id deletedRegs)) (certificates db)\<rparr>))"

text \<open>
  \<open>storage.logActivity(userId, action, details, resourceType, resourceId, ip, userAgent)\<close>
  inserts one row; \<open>activity_logs.user_id\<close> references \<open>users\<close>. The address and the user
  agent of the request are not modelled.
\<close>

definition logActivity ::
  "database \<Rightarrow> int \<Rightarrow> logAction \<Rightarrow> (string \<times> string) list \<Rightarrow> string \<Rightarrow> int
     \<Rightarrow> (db_error + activityLog) \<times> database" where
  "logActivity db uid action details resourceType resourceId =
     (let row = \<lparr>log_userId = uid, log_action = action, log_details = details,
                 log_resourceType = resourceType, log_resourceId = resourceId\<rparr>
      in if uid \<notin> set (map user_id (users db)) then (Inl ForeignKeyViolation, db)
         else (Inr row, db\<lparr>activityLogs := activityLogs db @ [row]\<rparr>))"

text \<open>
  \<open>storage.getCertificateByNumber(certificateNumber)\<close>: the first certificate with that
  number, with its registration, and the registration's event and user (columns id,
  fullName, email, organization, position). A relation that resolves to no row is \<open>null\<close>.
  The query is rejected when the number is no text for the database.
\<close>

record registrationWithRelations =
  reg_row :: eventRegistration
  reg_event :: "event option"
  reg_user :: "user option"

record certificateWithRelations =
  cert_row :: certificate
  registration :: "registrationWithRelations option"

definition select_certificate_by_number ::
  "database \<Rightarrow> string \<Rightarrow> certificateWithRelations option" where
  "select_certificate_by_number db num =
     (case find (\<lambda>c. certificateNumber c = num) (certificates db) of
        None \<Rightarrow> None
      | Some c \<Rightarrow>
          Some \<lparr>cert_row = c,
                registration =
                  (case find (\<lambda>r. reg_id r = registrationId c) (eventRegistrations db) of
                     None \<Rightarrow> None
                   | Some r \<Rightarrow>
                       Some \<lparr>reg_row = r,
                             reg_event = find (\<lambda>e. event_id e = eventId r) (events db),
                             reg_user = find (\<lambda>u. user_id u = userId r) (users db)\<rparr>)\<rparr>)"

definition getCertificateByNumber ::
  "database \<Rightarrow> string \<Rightarrow> db_error + certificateWithRelations option" where
  "getCertificateByNumber db num =
     (if \<not> pg_text num then Inl InvalidText else Inr (select_certificate_by_number db num))"

subsection \<open>Helpers of the certificate utilities\<close>

text \<open>The decimal text of a number, as a template literal prints an integer.\<close>

definition digit_char :: "nat \<Rightarrow> char" where
  "digit_char d = ''0123456789'' ! d"

fun string_of_nat :: "nat \<Rightarrow> string" where
  "string_of_nat n =
     (if n < 10 then [digit_char n] else string_of_nat (n div 10) @ [digit_char (n mod 10)])"

declare string_of_nat.simps [simp del]

definition string_of_int :: "int \<Rightarrow> string" where
  "string_of_int i = (if i < 0 then CHR ''-'' # string_of_nat (nat (- i)) else string_of_nat (nat i))"

text \<open>\<open>s.slice(-2)\<close> and \<open>s.padStart(2, '0')\<close>.\<close>

definition slice_last2 :: "string \<Rightarrow> string" where
  "slice_last2 s = drop (length s - 2) s"

definition padStart2 :: "string \<Rightarrow> string" where
  "padStart2 s = replicate (2 - length s) (CHR ''0'') @ s"

text \<open>
  \<open>generateCertificateNumber()\<close>. Its inputs are what it reads from the environment: the
  \<open>getFullYear()\<close> and \<open>getMonth()\<close> of the current date, and the six characters that
  \<open>nanoid(6)\<close> draws from the custom alphabet.
\<close>

definition nanoid_alphabet :: string where
  "nanoid_alphabet = ''1234567890ABCDEFGHIJKLMNOPQRSTUVWXYZ''"

definition generateCertificateNumber :: "int \<Rightarrow> int \<Rightarrow> string \<Rightarrow> string" where
  "generateCertificateNumber fullYear month0 random_id =
     (let year = slice_last2 (string_of_int fullYear);
          month = padStart2 (string_of_int (month0 + 1))
      in ''MEDEVENT-'' @ year @ month @ ''-'' @ random_id)"

text \<open>
  \<open>validateCertificateNumber\<close> tests the anchored expression
  \<open>/^MEDEVENT-\d{4}-[A-Z0-9]{6}$/\<close>: a sequence of twenty character classes that the whole
  string has to match, position by position.
\<close>

datatype char_class = Lit char | Digit | UpperAlnum

fun class_matches :: "char_class \<Rightarrow> char \<Rightarrow> bool" where
  "class_matches (Lit a) c = (c = a)"
| "class_matches Digit c = (c \<in> set ''0123456789'')"
| "class_matches UpperAlnum c = (c \<in> set ''ABCDEFGHIJKLMNOPQRSTUVWXYZ0123456789'')"

definition certNumberRegex :: "char_class list" where
  "certNumberRegex =
     map Lit ''MEDEVENT-'' @ replicate 4 Digit @ [Lit (CHR ''-'')] @ replicate 6 UpperAlnum"

definition regex_test :: "char_class list \<Rightarrow> string \<Rightarrow> bool" where
  "regex_test classes s = list_all2 class_matches classes s"

definition validateCertificateNumber :: "string \<Rightarrow> bool" where
  "validateCertificateNumber number = regex_test certNumberRegex number"

text \<open>
  \<open>generateCertificate(url)\<close> of the utilities renders the URL with \<open>QRCode.toDataURL\<close>
  and rethrows its failure. The library is a parameter: it gives the data URL of the
  image, or \<open>None\<close> when it rejects the text.
\<close>

definition utils_generateCertificate :: "(string \<Rightarrow> string option) \<Rightarrow> string \<Rightarrow> string option" where
  "utils_generateCertificate toDataURL url = toDataURL url"

subsection \<open>Route handlers\<close>

text \<open>
  \<open>POST /registrations/:id/certificate\<close>. \<open>actor\<close> is \<open>req.user.id\<close>, \<open>now0\<close> is
  \<open>Date.now()\<close>, and \<open>now1\<close>, \<open>now2\<close> are the clock readings of the storage call. The
  answer is 201 with the certificate, or the 500 of the \<open>catch\<close> block.
\<close>

datatype issue_response = Created201 certificate | IssueFailed500

definition issued_number :: "timestamp \<Rightarrow> int \<Rightarrow> string" where
  "issued_number now0 rid = ''CERT-'' @ string_of_int now0 @ ''-'' @ string_of_int rid"

definition verification_url :: "string \<Rightarrow> string \<Rightarrow> string \<Rightarrow> string" where
  "verification_url protocol host number = protocol @ ''://'' @ host @ ''/certificates/verify/'' @ number"

definition issue_certificate_handler ::
  "(string \<Rightarrow> string option) \<Rightarrow> database \<Rightarrow> int \<Rightarrow> string \<Rightarrow> string \<Rightarrow> int
     \<Rightarrow> timestamp \<Rightarrow> timestamp \<Rightarrow> timestamp \<Rightarrow> issue_response \<times> database" where
  "issue_certificate_handler toDataURL db actor protocol host rid now0 now1 now2 =
     (let number = issued_number now0 rid;
          verificationUrl = verification_url protocol host number
      in case utils_generateCertificate toDataURL verificationUrl of
           None \<Rightarrow> (IssueFailed500, db)
         | Some qr \<Rightarrow>
             (case storage_generateCertificate db rid qr number now1 now2 of
                (Inl e, db1) \<Rightarrow> (IssueFailed500, db1)
              | (Inr None, db1) \<Rightarrow> (IssueFailed500, db1)
              | (Inr (Some c), db1) \<Rightarrow>
                  (case logActivity db1 actor Generate_certificate
                          [(''certificateNumber'', number)] ''certificate'' (cert_id c) of
                     (Inl e, db2) \<Rightarrow> (IssueFailed500, db2)
                   | (Inr l, db2) \<Rightarrow> (Created201 c, db2))))"

text \<open>
  \<open>GET /certificates/verify/:number\<close>, without authentication. The answers: 404
  \<open>{message: "Certificate not found", valid: false}\<close>; 200 \<open>{message: "Certificate has been
  revoked", valid: false, revoked: true, revokedReason, revokedDate}\<close>; 200 \<open>{message:
  "Certificate is valid", valid: true, certificate: {...}}\<close>; and the 500 of the
  \<open>catch\<close> block, reached when the lookup or the activity row is rejected or a joined
  relation is \<open>null\<close>.
\<close>

record public_event =
  pe_title :: string
  pe_startDate :: timestamp
  pe_endDate :: timestamp

record public_user =
  pu_fullName :: string
  pu_organization :: "string option"
  pu_position :: "string option"

record public_certificate =
  pc_certificateNumber :: string
  pc_issuedDate :: timestamp
  pc_event :: public_event
  pc_user :: public_user

datatype verify_response =
    NotFound404
  | Revoked200 "string option" "timestamp option"
  | Valid200 public_certificate
  | VerifyFailed500

definition verify_certificate_handler :: "database \<Rightarrow> string \<Rightarrow> verify_response \<times> database" where
  "verify_certificate_handler db number =
     (case getCertificateByNumber db number of
        Inl e \<Rightarrow> (VerifyFailed500, db)
      | Inr None \<Rightarrow> (NotFound404, db)
      | Inr (Some found) \<Rightarrow>
          let c = cert_row found in
          if isRevoked c then (Revoked200 (revokedReason c) (revokedDate c), db)
          else
            (case registration found of
               None \<Rightarrow> (VerifyFailed500, db)
             | Some r \<Rightarrow>
                 (case logActivity db (userId (reg_row r)) Verify_certificate
                         [(''certificateNumber'', number)] ''certificate'' (cert_id c) of
                    (Inl e, db1) \<Rightarrow> (VerifyFailed500, db1)
                  | (Inr l, db1) \<Rightarrow>
                      (case reg_event r of
                         None \<Rightarrow> (VerifyFailed500, db1)
                       | Some ev \<Rightarrow>
                           (case reg_user r of
                              None \<Rightarrow> (VerifyFailed500, db1)
                            | Some u \<Rightarrow>
                                (Valid200
                                   \<lparr>pc_certificateNumber = certificateNumber c,
                                    pc_issuedDate = issuedDate c,
                                    pc_event = \<lparr>pe_title = title ev, pe_startDate = startDate ev,
                                                 pe_endDate = endDate ev\<rparr>,
                                    pc_user = \<lparr>pu_fullName = fullName u,
                                                pu_organization = organization u,
                                                pu_position = position u\<rparr>\<rparr>,
                                 db1))))))"

text \<open>
  \<open>POST /certificates/:id/revoke\<close> with body \<open>{reason}\<close>, the reason being a string, as
  the storage function declares it. A missing reason is \<open>None\<close>; the guard \<open>!reason\<close> also
  rejects the empty string. The answers: 400, 200 with the revoked
  certificate, and the 500 of the \<open>catch\<close> block (also reached when no row has the id,
  where reading \<open>revokedCertificate.certificateNumber\<close> throws).
\<close>

datatype revoke_response = ReasonRequired400 | Revoked200OK certificate | RevokeFailed500

definition revoke_certificate_handler ::
  "database \<Rightarrow> int \<Rightarrow> int \<Rightarrow> string option \<Rightarrow> timestamp \<Rightarrow> timestamp \<Rightarrow> revoke_response \<times> database" where
  "revoke_certificate_handler db actor certificateId body_reason now1 now2 =
     (case body_reason of
        None \<Rightarrow> (ReasonRequired400, db)
      | Some reason \<Rightarrow>
          if reason = [] then (ReasonRequired400, db)
          else
            (case storage_revokeCertificate db certificateId actor reason now1 now2 of
               (Inl e, db1) \<Rightarrow> (RevokeFailed500, db1)
             | (Inr None, db1) \<Rightarrow> (RevokeFailed500, db1)
             | (Inr (Some c), db1) \<Rightarrow>
                 (case logActivity db1 actor Revoke_certificate
                         [(''certificateNumber'', certificateNumber c), (''reason'', reason)]
                         ''certificate'' certificateId of
                    (Inl e, db2) \<Rightarrow> (RevokeFailed500, db2)
                  | (Inr l, db2) \<Rightarrow> (Revoked200OK c, db2))))"

subsection \<open>Sequences of ledger operations\<close>

text \<open>
  The storage functions that write the table \<open>certificates\<close>: \<open>generateCertificate\<close>
  (insertion and reissue), \<open>revokeCertificate\<close>, and \<open>deleteEvent\<close> through the cascade.
\<close>

datatype ledger_op =
    Generate int string string timestamp timestamp
  | Revoke int int string timestamp timestamp
  | DeleteEvent int

fun apply_op :: "ledger_op \<Rightarrow> database \<Rightarrow> database" where
  "apply_op (Generate rid qr num now1 now2) db = snd (storage_generateCertificate db rid qr num now1 now2)"
| "apply_op (Revoke i actor reason now1 now2) db = snd (storage_revokeCertificate db i actor reason now1 now2)"
| "apply_op (DeleteEvent i) db = snd (storage_deleteEvent db i)"

fun run_ops :: "ledger_op list \<Rightarrow> database \<Rightarrow> database" where
  "run_ops [] db = db"
| "run_ops (op # ops) db = run_ops ops (apply_op op db)"

text \<open>The ledger invariants of the data model.\<close>

definition one_row_per_registration :: "database \<Rightarrow> bool" where
  "one_row_per_registration db = distinct (map registrationId (certificates db))"

definition revocation_consistent :: "certificate \<Rightarrow> bool" where
  "revocation_consistent c =
     ((isRevoked c \<longrightarrow> revokedReason c \<noteq> None \<and> revokedDate c \<noteq> None \<and> revokedById c \<noteq> None) \<and>
      (\<not> isRevoked c \<longrightarrow> revokedReason c = None \<and> revokedDate c = None \<and> revokedById c = None))"

definition is_delete :: "ledger_op \<Rightarrow> bool" where
  "is_delete op = (case op of DeleteEvent i \<Rightarrow> True | _ \<Rightarrow> False)"

text \<open>
  The conditions under which the database accepts the deletion of an event (no schedule
  of another event refers to a speaker of the event), and the insertion of a certificate
  for a registration (the number is a text of at most fifty characters that no row has,
  the next id of the sequence is free, and the registration exists).
\<close>

definition delete_accepted :: "database \<Rightarrow> int \<Rightarrow> bool" where
  "delete_accepted db i =
     ((pg_integer i \<or> i \<in> set (map event_id (events db))) \<and>
      \<not> (\<exists>s \<in> set (eventSchedules db). \<exists>p \<in> set (eventSpeakers db).
            i \<in> set (map event_id (events db)) \<and> speaker_eventId p = i \<and>
            schedule_eventId s \<noteq> i \<and> speakerId s = Some (speaker_id p)))"

definition insert_accepted :: "database \<Rightarrow> int \<Rightarrow> string \<Rightarrow> bool" where
  "insert_accepted db rid num =
     (pg_text num \<and> char_count num \<le> 50 \<and>
      certificates_id_seq db + 1 \<notin> set (map cert_id (certificates db)) \<and>
      num \<notin> set (map certificateNumber (certificates db)) \<and>
      rid \<in> set (map reg_id (eventRegistrations db)))"

subsection \<open>Varying the columns a handler should not depend on\<close>

text \<open>
  The database with the \<open>email\<close> of each user replaced, and the database with the
  \<open>attendanceConfirmed\<close> and \<open>status\<close> of each registration replaced.
\<close>

definition with_emails :: "(user \<Rightarrow> string) \<Rightarrow> database \<Rightarrow> database" where
  "with_emails f db = db\<lparr>users := map (\<lambda>u. u\<lparr>email := f u\<rparr>) (users db)\<rparr>"

definition with_eligibility ::
  "(eventRegistration \<Rightarrow> bool option) \<Rightarrow> (eventRegistration \<Rightarrow> registration_status)
     \<Rightarrow> database \<Rightarrow> database" where
  "with_eligibility a s db =
     db\<lparr>eventRegistrations :=
          map (\<lambda>r. r\<lparr>attendanceConfirmed := a r, status := s r\<rparr>) (eventRegistrations db)\<rparr>"

subsection \<open>Sample data\<close>

text \<open>
  A small database for the concrete runs below: a participant (user 7) registered
  (registration 42, attendance not confirmed) for event 1, and a manager (user 2). The
  sample renderer stands for the QR library: it returns the text behind a data-URL
  prefix, so that different texts have different images.
\<close>

definition sample_toDataURL :: "string \<Rightarrow> string option" where
  "sample_toDataURL url = Some (''data:image/png;base64,'' @ url)"

definition sample_registration :: eventRegistration where
  "sample_registration =
     \<lparr>reg_id = 42, eventId = 1, userId = 7, status = Pending, attendanceConfirmed = Some False\<rparr>"

definition db_registered :: database where
  "db_registered =
     \<lparr>users = [\<lparr>user_id = 7, fullName = ''Dr A'', email = ''a@x.org'',
                 organization = Some ''Hospital'', position = None\<rparr>,
               \<lparr>user_id = 2, fullName = ''Manager'', email = ''m@x.org'',
                 organization = None, position = None\<rparr>],
      events = [\<lparr>event_id = 1, title = ''Cardiology Day'', startDate = 100, endDate = 200\<rparr>],
      eventSpeakers = [], eventSchedules = [],
      eventRegistrations = [sample_registration],
      certificates = [], certificates_id_seq = 0, activityLogs = []\<rparr>"

text \<open>
  The certificate that \<open>POST /registrations/42/certificate\<close> creates on
  \<open>db_registered\<close> at time 1000, and the same row after a revocation by user 2.
\<close>

definition cert_active :: certificate where
  "cert_active =
     \<lparr>cert_id = 1, registrationId = 42, certificateNumber = ''CERT-1000-42'',
      qrCode = ''data:image/png;base64,https://h.org/certificates/verify/CERT-1000-42'',
      issuedDate = 1001, isRevoked = False, revokedReason = None, revokedDate = None,
      revokedById = None, createdAt = 1002, updatedAt = 1002\<rparr>"

definition cert_revoked :: certificate where
  "cert_revoked =
     cert_active\<lparr>isRevoked := True, revokedReason := Some ''duplicate issuance'',
       revokedDate := Some 2000, revokedById := Some 2, updatedAt := 2001\<rparr>"

definition db_active :: database where
  "db_active = db_registered\<lparr>certificates := [cert_active], certificates_id_seq := 1\<rparr>"

definition db_revoked :: database where
  "db_revoked = db_registered\<lparr>certificates := [cert_revoked], certificates_id_seq := 1\<rparr>"

section \<open>Properties\<close>

subsection \<open>Facts about the storage functions\<close>

lemma find_None_registration:
  "find (\<lambda>c. registrationId c = rid) cs = None \<longleftrightarrow> rid \<notin> set (map registrationId cs)"
  by (induction cs) auto

lemma first_row_updated:
  "distinct (map cert_id cs) \<Longrightarrow> c \<in> set cs \<Longrightarrow>
     first_row (map f (filter (\<lambda>x. cert_id x = cert_id c) cs)) = Some (f c)"
  by (induction cs) (auto simp: first_row_def image_iff)

lemma map_cert_id_update:
  "(\<And>c. cert_id (f c) = cert_id c) \<Longrightarrow> map cert_id (fst (update_certificates_where_id i f cs)) = map cert_id cs"
  by (induction cs) (auto simp: update_certificates_where_id_def)

lemma map_registrationId_update:
  "(\<And>c. registrationId (f c) = registrationId c) \<Longrightarrow>
     map registrationId (fst (update_certificates_where_id i f cs)) = map registrationId cs"
  by (induction cs) (auto simp: update_certificates_where_id_def)

lemma char_count_le: "char_count s \<le> length s"
  by (simp add: char_count_def)

lemma generate_insert_case:
  "find (\<lambda>c. registrationId c = rid) (certificates db) = None \<Longrightarrow>
   pg_integer rid \<or> rid \<in> set (map reg_id (eventRegistrations db)) \<Longrightarrow>
     storage_generateCertificate db rid qr num now1 now2 =
       (case insert_certificate db rid num qr now1 now2 of
          (Inl e, db1) \<Rightarrow> (Inl e, db1) | (Inr row, db1) \<Rightarrow> (Inr (Some row), db1))"
  by (auto simp: storage_generateCertificate_def)

lemma generate_None_certificates:
  "find (\<lambda>c. registrationId c = rid) (certificates db) = None \<Longrightarrow>
     certificates (snd (storage_generateCertificate db rid qr num now1 now2)) = certificates db \<or>
     certificates (snd (storage_generateCertificate db rid qr num now1 now2)) =
       certificates (snd (insert_certificate db rid num qr now1 now2))"
  by (simp add: storage_generateCertificate_def split: prod.splits sum.splits)

lemma generate_active_case:
  "find (\<lambda>c. registrationId c = rid) (certificates db) = Some c \<Longrightarrow> \<not> isRevoked c \<Longrightarrow>
     storage_generateCertificate db rid qr num now1 now2 = (Inr (Some c), db)"
  by (simp add: storage_generateCertificate_def)

lemma find_Some_mem: "find P xs = Some x \<Longrightarrow> x \<in> set xs \<and> P x"
  by (induction xs) (auto split: if_splits)

lemma generate_reissue_case:
  assumes f: "find (\<lambda>c. registrationId c = rid) (certificates db) = Some c"
    and r: "isRevoked c"
    and d: "distinct (map cert_id (certificates db))"
  shows "storage_generateCertificate db rid qr num now1 now2 =
       (Inr (Some (reissue_set qr now1 now2 c)),
        db\<lparr>certificates := map (\<lambda>x. if cert_id x = cert_id c then reissue_set qr now1 now2 x else x)
                              (certificates db)\<rparr>)"
proof -
  have m: "c \<in> set (certificates db)" using f by (simp add: find_Some_mem)
  show ?thesis
    using f r first_row_updated[OF d m, of "reissue_set qr now1 now2"]
    by (simp add: storage_generateCertificate_def update_certificates_where_id_def)
qed

lemma insert_certificates_cases:
  "certificates (snd (insert_certificate db rid num qr now1 now2)) = certificates db \<or>
   (\<exists>row. fst (insert_certificate db rid num qr now1 now2) = Inr row \<and> registrationId row = rid \<and>
      certificates (snd (insert_certificate db rid num qr now1 now2)) = certificates db @ [row])"
  by (simp add: insert_certificate_def Let_def)

lemma generate_registrationIds:
  "map registrationId (certificates (snd (storage_generateCertificate db rid qr num now1 now2))) =
     map registrationId (certificates db) \<or>
   (rid \<notin> set (map registrationId (certificates db)) \<and>
    map registrationId (certificates (snd (storage_generateCertificate db rid qr num now1 now2))) =
     map registrationId (certificates db) @ [rid])"
proof (cases "find (\<lambda>c. registrationId c = rid) (certificates db)")
  case None
  then have n: "rid \<notin> set (map registrationId (certificates db))"
    by (simp add: find_None_registration)
  show ?thesis
    using generate_None_certificates[OF None, of qr num now1 now2]
      insert_certificates_cases[of db rid num qr now1 now2] n
    by auto
next
  case (Some c)
  have "map registrationId (fst (update_certificates_where_id (cert_id c) (reissue_set qr now1 now2)
          (certificates db))) = map registrationId (certificates db)"
    by (rule map_registrationId_update) (simp add: reissue_set_def)
  then show ?thesis
    using Some by (auto simp: storage_generateCertificate_def split: prod.splits)
qed

lemma same_id_same_row:
  "distinct (map cert_id cs) \<Longrightarrow> c \<in> set cs \<Longrightarrow> x \<in> set cs \<Longrightarrow> cert_id x = cert_id c \<Longrightarrow> x = c"
  by (metis distinct_map inj_on_def)

text \<open>
  A call that is not interrupted is the lookup followed by the write. When two calls for
  the same registration both look up before either writes, both insert: the table has no
  unique constraint on \<open>registration_id\<close>, and the two numbers differ.
\<close>

lemma generate_phases:
  "storage_generateCertificate db rid qr num now1 now2 =
     generate_write db (generate_lookup db rid) rid qr num now1 now2"
  by (simp add: storage_generateCertificate_def generate_write_def generate_lookup_def)

text \<open>The equations that evaluate a handler on the sample data.\<close>

lemma issued_number_1000_42: "issued_number 1000 42 = ''CERT-1000-42''"
  by (simp add: issued_number_def string_of_int_def string_of_nat.simps digit_char_def)

lemma issued_number_5000_42: "issued_number 5000 42 = ''CERT-5000-42''"
  by (simp add: issued_number_def string_of_int_def string_of_nat.simps digit_char_def)

lemmas sample_defs =
  db_registered_def db_active_def db_revoked_def cert_active_def cert_revoked_def
  sample_registration_def sample_toDataURL_def

lemmas handler_defs =
  issue_certificate_handler_def verify_certificate_handler_def revoke_certificate_handler_def
  utils_generateCertificate_def verification_url_def storage_generateCertificate_def
  insert_certificate_def storage_revokeCertificate_def update_certificates_where_id_def
  reissue_set_def revoke_set_def first_row_def logActivity_def getCertificateByNumber_def
  select_certificate_by_number_def pg_text_def pg_integer_def char_count_def Let_def

lemma interleaved_issuance_two_rows:
  "map registrationId
     (certificates
        (snd (generate_write
                (snd (generate_write db_registered (generate_lookup db_registered 42) 42
                        ''image 1'' ''CERT-1000-42'' 1001 1002))
                (generate_lookup db_registered 42) 42 ''image 2'' ''CERT-1003-42'' 1004 1005))) =
   [42, 42]"
  by (simp add: generate_write_def generate_lookup_def insert_certificate_def Let_def sample_defs
      pg_text_def pg_integer_def char_count_def)

subsubsection \<open>Invariants under the ledger operations\<close>

lemma revoke_certificates:
  "certificates (snd (storage_revokeCertificate db i actor reason now1 now2)) = certificates db \<or>
   certificates (snd (storage_revokeCertificate db i actor reason now1 now2)) =
     fst (update_certificates_where_id i (revoke_set actor reason now1 now2) (certificates db))"
  by (simp add: storage_revokeCertificate_def split: prod.splits)

lemma revoke_registrationIds:
  "map registrationId (certificates (snd (storage_revokeCertificate db i actor reason now1 now2))) =
     map registrationId (certificates db)"
proof -
  have "map registrationId (fst (update_certificates_where_id i (revoke_set actor reason now1 now2)
          (certificates db))) = map registrationId (certificates db)"
    by (rule map_registrationId_update) (simp add: revoke_set_def)
  then show ?thesis
    using revoke_certificates[of db i actor reason now1 now2] by auto
qed

lemma revoke_cert_ids:
  "map cert_id (certificates (snd (storage_revokeCertificate db i actor reason now1 now2))) =
     map cert_id (certificates db)"
proof -
  have "map cert_id (fst (update_certificates_where_id i (revoke_set actor reason now1 now2)
          (certificates db))) = map cert_id (certificates db)"
    by (rule map_cert_id_update) (simp add: revoke_set_def)
  then show ?thesis
    using revoke_certificates[of db i actor reason now1 now2] by auto
qed

lemma generate_cert_ids:
  "\<exists>r. map cert_id (certificates (snd (storage_generateCertificate db rid qr num now1 now2))) =
     map cert_id (certificates db) @ r"
proof (cases "find (\<lambda>c. registrationId c = rid) (certificates db)")
  case None
  show ?thesis
    using generate_None_certificates[OF None, of qr num now1 now2]
      insert_certificates_cases[of db rid num qr now1 now2]
    by auto
next
  case (Some c)
  have "map cert_id (fst (update_certificates_where_id (cert_id c) (reissue_set qr now1 now2)
          (certificates db))) = map cert_id (certificates db)"
    by (rule map_cert_id_update) (simp add: reissue_set_def)
  then show ?thesis
    using Some by (auto simp: storage_generateCertificate_def split: prod.splits)
qed

lemma deleteEvent_certificates:
  "\<exists>P. certificates (snd (storage_deleteEvent db i)) = filter P (certificates db)"
proof -
  have "certificates db = filter (\<lambda>c. True) (certificates db)" by simp
  then show ?thesis
    by (auto simp: storage_deleteEvent_def Let_def simp del: filter_True)
qed

lemma apply_op_one_row:
  assumes "one_row_per_registration db"
  shows "one_row_per_registration (apply_op op db)"
proof (cases op)
  case (Generate rid qr num now1 now2)
  then show ?thesis
    using assms generate_registrationIds[of db rid qr num now1 now2]
    by (auto simp: one_row_per_registration_def)
next
  case (Revoke i actor reason now1 now2)
  then show ?thesis
    using assms by (simp add: one_row_per_registration_def revoke_registrationIds)
next
  case (DeleteEvent i)
  then show ?thesis
    using assms deleteEvent_certificates[of db i]
    by (auto simp: one_row_per_registration_def distinct_map_filter)
qed

lemma run_ops_one_row:
  "one_row_per_registration db \<Longrightarrow> one_row_per_registration (run_ops ops db)"
  by (induction ops arbitrary: db) (simp_all add: apply_op_one_row)

lemma apply_op_keeps_rows:
  "\<not> is_delete op \<Longrightarrow> \<exists>r. map cert_id (certificates (apply_op op db)) = map cert_id (certificates db) @ r"
  by (cases op) (simp_all add: is_delete_def generate_cert_ids revoke_cert_ids)

lemma run_ops_keeps_rows:
  "list_all (\<lambda>op. \<not> is_delete op) ops \<Longrightarrow>
     \<exists>r. map cert_id (certificates (run_ops ops db)) = map cert_id (certificates db) @ r"
proof (induction ops arbitrary: db)
  case Nil
  then show ?case by simp
next
  case (Cons op ops)
  then obtain r1 where r1: "map cert_id (certificates (apply_op op db)) = map cert_id (certificates db) @ r1"
    using apply_op_keeps_rows[of op db] by auto
  from Cons obtain r2 where "map cert_id (certificates (run_ops ops (apply_op op db))) =
      map cert_id (certificates (apply_op op db)) @ r2"
    by fastforce
  then show ?case using r1 by simp
qed

lemma update_consistent:
  "(\<And>c. revocation_consistent (f c)) \<Longrightarrow> list_all revocation_consistent cs \<Longrightarrow>
     list_all revocation_consistent (fst (update_certificates_where_id i f cs))"
  by (induction cs) (auto simp: update_certificates_where_id_def)

lemma apply_op_consistent:
  assumes "list_all revocation_consistent (certificates db)"
  shows "list_all revocation_consistent (certificates (apply_op op db))"
proof (cases op)
  case (Generate rid qr num now1 now2)
  show ?thesis
  proof (cases "find (\<lambda>c. registrationId c = rid) (certificates db)")
    case None
    have "list_all revocation_consistent
            (certificates (snd (insert_certificate db rid num qr now1 now2)))"
      using assms by (simp add: insert_certificate_def Let_def revocation_consistent_def)
    then show ?thesis
      using assms generate_None_certificates[OF None, of qr num now1 now2]
      unfolding Generate apply_op.simps by auto
  next
    case (Some c)
    have "list_all revocation_consistent (fst (update_certificates_where_id (cert_id c)
            (reissue_set qr now1 now2) (certificates db)))"
      using assms by (intro update_consistent) (simp_all add: reissue_set_def revocation_consistent_def)
    then show ?thesis
      using Some assms Generate by (auto simp: storage_generateCertificate_def split: prod.splits)
  qed
next
  case (Revoke i actor reason now1 now2)
  have "list_all revocation_consistent (fst (update_certificates_where_id i
            (revoke_set actor reason now1 now2) (certificates db)))"
    using assms by (intro update_consistent) (simp_all add: revoke_set_def revocation_consistent_def)
  then show ?thesis
    using assms Revoke revoke_certificates[of db i actor reason now1 now2] by auto
next
  case (DeleteEvent i)
  then show ?thesis
    using assms deleteEvent_certificates[of db i]
    by (auto simp: list_all_iff)
qed

lemma run_ops_consistent:
  "list_all revocation_consistent (certificates db) \<Longrightarrow>
     list_all revocation_consistent (certificates (run_ops ops db))"
  by (induction ops arbitrary: db) (simp_all add: apply_op_consistent)

lemma generate_inserts_row:
  assumes n: "find (\<lambda>c. registrationId c = rid) (certificates db) = None"
    and a: "insert_accepted db rid num"
  shows "storage_generateCertificate db rid qr num now1 now2 =
           (Inr (Some \<lparr>cert_id = certificates_id_seq db + 1, registrationId = rid,
                        certificateNumber = num, qrCode = qr, issuedDate = now1,
                        isRevoked = False, revokedReason = None, revokedDate = None,
                        revokedById = None, createdAt = now2, updatedAt = now2\<rparr>),
            db\<lparr>certificates_id_seq := certificates_id_seq db + 1,
               certificates := certificates db @
                 [\<lparr>cert_id = certificates_id_seq db + 1, registrationId = rid,
                   certificateNumber = num, qrCode = qr, issuedDate = now1,
                   isRevoked = False, revokedReason = None, revokedDate = None,
                   revokedById = None, createdAt = now2, updatedAt = now2\<rparr>]\<rparr>)"
  using a
  by (simp add: storage_generateCertificate_def n insert_certificate_def insert_accepted_def Let_def)

lemma generate_rejects_row:
  assumes n: "find (\<lambda>c. registrationId c = rid) (certificates db) = None"
    and a: "\<not> insert_accepted db rid num"
  shows "(\<exists>e. fst (storage_generateCertificate db rid qr num now1 now2) = Inl e) \<and>
         certificates (snd (storage_generateCertificate db rid qr num now1 now2)) = certificates db"
  using a
  by (auto simp: storage_generateCertificate_def n insert_certificate_def insert_accepted_def Let_def)

lemma deleted_event_ids:
  "x \<in> set (map event_id (filter (\<lambda>e. event_id e = i) es)) \<longleftrightarrow>
     x = i \<and> i \<in> set (map event_id es)"
  by auto

lemma deleted_event_image:
  "event_id ` {e \<in> set es. event_id e = i} = (if i \<in> event_id ` set es then {i} else {})"
  by auto

lemma deleteEvent_rejected:
  "\<not> delete_accepted db i \<Longrightarrow>
     (\<exists>e. fst (storage_deleteEvent db i) = Inl e) \<and> snd (storage_deleteEvent db i) = db"
  by (auto simp: storage_deleteEvent_def delete_accepted_def Let_def filter_empty_conv
        deleted_event_image split: if_splits)

lemma deleteEvent_tables:
  assumes "delete_accepted db i"
  shows "events (snd (storage_deleteEvent db i)) = filter (\<lambda>e. event_id e \<noteq> i) (events db) \<and>
   eventRegistrations (snd (storage_deleteEvent db i)) =
     filter (\<lambda>r. \<not> (eventId r = i \<and> i \<in> set (map event_id (events db))))
       (eventRegistrations db) \<and>
   certificates (snd (storage_deleteEvent db i)) =
     filter (\<lambda>c. \<not> (\<exists>r \<in> set (eventRegistrations db).
                       reg_id r = registrationId c \<and> eventId r = i \<and>
                       i \<in> set (map event_id (events db))))
       (certificates db)"
proof -
  have r: "filter (\<lambda>r. eventId r \<notin> set (map event_id (filter (\<lambda>e. event_id e = i) (events db))))
             (eventRegistrations db) =
           filter (\<lambda>r. \<not> (eventId r = i \<and> i \<in> set (map event_id (events db))))
             (eventRegistrations db)"
    by (rule filter_cong) (simp_all only: deleted_event_ids)
  have c: "filter (\<lambda>c. registrationId c \<notin> set (map reg_id
              (filter (\<lambda>r. eventId r \<in> set (map event_id (filter (\<lambda>e. event_id e = i) (events db))))
                 (eventRegistrations db))))
             (certificates db) =
           filter (\<lambda>c. \<not> (\<exists>r \<in> set (eventRegistrations db).
                       reg_id r = registrationId c \<and> eventId r = i \<and>
                       i \<in> set (map event_id (events db))))
             (certificates db)"
    by (rule filter_cong, simp, simp only: deleted_event_ids, auto, force)
  have ok: "\<exists>ev. storage_deleteEvent db i =
     (Inr ev,
      db\<lparr>events := filter (\<lambda>e. event_id e \<noteq> i) (events db),
         eventSpeakers :=
           filter (\<lambda>p. speaker_eventId p \<notin> set (map event_id (filter (\<lambda>e. event_id e = i) (events db))))
             (eventSpeakers db),
         eventSchedules :=
           filter (\<lambda>s. schedule_eventId s \<notin> set (map event_id (filter (\<lambda>e. event_id e = i) (events db))))
             (eventSchedules db),
         eventRegistrations :=
           filter (\<lambda>r. eventId r \<notin> set (map event_id (filter (\<lambda>e. event_id e = i) (events db))))
             (eventRegistrations db),
         certificates :=
           filter (\<lambda>c. registrationId c \<notin> set (map reg_id
              (filter (\<lambda>r. eventId r \<in> set (map event_id (filter (\<lambda>e. event_id e = i) (events db))))
                 (eventRegistrations db))))
             (certificates db)\<rparr>)"
    using assms
    by (auto simp: storage_deleteEvent_def delete_accepted_def Let_def filter_empty_conv
          deleted_event_image split: if_splits) force+
  then show ?thesis
    using r c by auto
qed

subsubsection \<open>Verification\<close>

lemma find_None_number:
  "find (\<lambda>c. certificateNumber c = num) cs = None \<longleftrightarrow> num \<notin> set (map certificateNumber cs)"
  by (induction cs) auto

lemma find_map_user:
  "(\<And>u. user_id (g u) = user_id u) \<Longrightarrow>
     find (\<lambda>u. user_id u = i) (map g us) = map_option g (find (\<lambda>u. user_id u = i) us)"
  by (induction us) auto

lemma select_certificate_with_emails:
  "select_certificate_by_number (with_emails f db) number =
     map_option
       (\<lambda>found. found\<lparr>registration :=
          map_option (\<lambda>r. r\<lparr>reg_user := map_option (\<lambda>u. u\<lparr>email := f u\<rparr>) (reg_user r)\<rparr>)
            (registration found)\<rparr>)
       (select_certificate_by_number db number)"
proof -
  have g: "\<And>i. find (\<lambda>u. user_id u = i) (map (\<lambda>u. u\<lparr>email := f u\<rparr>) (users db)) =
             map_option (\<lambda>u. u\<lparr>email := f u\<rparr>) (find (\<lambda>u. user_id u = i) (users db))"
    by (rule find_map_user) simp
  show ?thesis
    by (simp add: select_certificate_by_number_def with_emails_def g split: option.splits)
qed

lemma logActivity_with_emails:
  "fst (logActivity (with_emails f db) uid a d t i) = fst (logActivity db uid a d t i)"
  by (simp add: logActivity_def with_emails_def Let_def comp_def)

lemma verify_rejected_text:
  "\<not> pg_text number \<Longrightarrow> verify_certificate_handler db number = (VerifyFailed500, db)"
  by (simp add: verify_certificate_handler_def getCertificateByNumber_def)

lemma verify_with_emails:
  "fst (verify_certificate_handler (with_emails f db) number) =
   fst (verify_certificate_handler db number)"
proof (cases "pg_text number")
  case False
  then show ?thesis by (simp add: verify_rejected_text)
next
  case True
  then have t: "\<And>d. getCertificateByNumber d number = Inr (select_certificate_by_number d number)"
    by (simp add: getCertificateByNumber_def)
  show ?thesis
  proof (cases "select_certificate_by_number db number")
    case None
    then show ?thesis
      by (simp add: verify_certificate_handler_def t select_certificate_with_emails)
  next
    case (Some found)
    show ?thesis
    proof (cases "registration found")
      case None
      then show ?thesis
        using Some by (simp add: verify_certificate_handler_def t select_certificate_with_emails Let_def)
    next
      case (Some r)
      obtain res db1 where l: "logActivity db (userId (reg_row r)) Verify_certificate
          [(''certificateNumber'', number)] ''certificate'' (cert_id (cert_row found)) = (res, db1)"
        by (cases "logActivity db (userId (reg_row r)) Verify_certificate
          [(''certificateNumber'', number)] ''certificate'' (cert_id (cert_row found))")
      obtain res' db1' where l': "logActivity (with_emails f db) (userId (reg_row r)) Verify_certificate
          [(''certificateNumber'', number)] ''certificate'' (cert_id (cert_row found)) = (res', db1')"
        by (cases "logActivity (with_emails f db) (userId (reg_row r)) Verify_certificate
          [(''certificateNumber'', number)] ''certificate'' (cert_id (cert_row found))")
      have e: "res' = res"
        using logActivity_with_emails[of f db "userId (reg_row r)" Verify_certificate
            "[(''certificateNumber'', number)]" "''certificate''" "cert_id (cert_row found)"] l l'
        by simp
      show ?thesis
        using \<open>select_certificate_by_number db number = Some found\<close> Some l l' e
        by (cases res; cases "reg_event r"; cases "reg_user r")
           (simp_all add: verify_certificate_handler_def t select_certificate_with_emails Let_def)
    qed
  qed
qed

lemma verify_valid_user:
  assumes "fst (verify_certificate_handler db number) = Valid200 pc"
  shows "\<exists>u. u \<in> set (users db) \<and>
           pc_user pc = \<lparr>pu_fullName = fullName u, pu_organization = organization u,
                          pu_position = position u\<rparr>"
proof -
  have t: "pg_text number"
    using assms by (cases "pg_text number") (simp_all add: verify_rejected_text)
  then have g: "getCertificateByNumber db number = Inr (select_certificate_by_number db number)"
    by (simp add: getCertificateByNumber_def)
  from assms obtain found r u where
    "select_certificate_by_number db number = Some found" "registration found = Some r"
    "reg_user r = Some u"
    "pc_user pc = \<lparr>pu_fullName = fullName u, pu_organization = organization u,
                          pu_position = position u\<rparr>"
    by (auto simp: verify_certificate_handler_def g Let_def
          split: option.splits if_splits prod.splits sum.splits)
  moreover from this have "find (\<lambda>x. user_id x = userId (reg_row r)) (users db) = Some u"
    by (auto simp: select_certificate_by_number_def split: option.splits)
  then have "u \<in> set (users db)"
    by (simp add: find_Some_mem)
  ultimately show ?thesis by blast
qed

subsubsection \<open>Issuance\<close>

lemma insert_with_eligibility:
  "insert_certificate (with_eligibility a s db) rid num qr now1 now2 =
     (fst (insert_certificate db rid num qr now1 now2),
      with_eligibility a s (snd (insert_certificate db rid num qr now1 now2)))"
  by (simp add: insert_certificate_def with_eligibility_def Let_def comp_def)

lemma generate_with_eligibility:
  "storage_generateCertificate (with_eligibility a s db) rid qr num now1 now2 =
     (fst (storage_generateCertificate db rid qr num now1 now2),
      with_eligibility a s (snd (storage_generateCertificate db rid qr num now1 now2)))"
proof (cases "find (\<lambda>c. registrationId c = rid) (certificates db)")
  case None
  have c: "certificates (with_eligibility a s db) = certificates db"
    by (simp add: with_eligibility_def)
  have g: "map reg_id (eventRegistrations (with_eligibility a s db)) =
           map reg_id (eventRegistrations db)"
    by (simp add: with_eligibility_def comp_def)
  obtain res db1 where i: "insert_certificate db rid num qr now1 now2 = (res, db1)"
    by (cases "insert_certificate db rid num qr now1 now2")
  show ?thesis
  proof (cases "\<not> pg_integer rid \<and> rid \<notin> set (map reg_id (eventRegistrations db))")
    case True
    then show ?thesis
      using None by (simp add: storage_generateCertificate_def c g)
  next
    case False
    then show ?thesis
      using None i
      by (cases res) (auto simp: storage_generateCertificate_def c g insert_with_eligibility)
  qed
next
  case (Some c)
  then show ?thesis
    by (simp add: storage_generateCertificate_def with_eligibility_def split: prod.splits)
qed

lemma logActivity_with_eligibility:
  "logActivity (with_eligibility a s db) uid act d t i =
     (fst (logActivity db uid act d t i), with_eligibility a s (snd (logActivity db uid act d t i)))"
  by (simp add: logActivity_def with_eligibility_def Let_def)

lemma issue_with_eligibility:
  "issue_certificate_handler toDataURL (with_eligibility a s db) actor protocol host rid now0 now1 now2 =
     (fst (issue_certificate_handler toDataURL db actor protocol host rid now0 now1 now2),
      with_eligibility a s (snd (issue_certificate_handler toDataURL db actor protocol host rid now0 now1 now2)))"
proof (cases "utils_generateCertificate toDataURL (verification_url protocol host (issued_number now0 rid))")
  case None
  then show ?thesis by (simp add: issue_certificate_handler_def Let_def)
next
  case (Some qr)
  obtain res db1 where g: "storage_generateCertificate db rid qr (issued_number now0 rid) now1 now2 = (res, db1)"
    by (cases "storage_generateCertificate db rid qr (issued_number now0 rid) now1 now2")
  show ?thesis
  proof (cases res)
    case (Inl e)
    then show ?thesis
      using Some g by (simp add: issue_certificate_handler_def Let_def generate_with_eligibility)
  next
    case (Inr oc)
    show ?thesis
    proof (cases oc)
      case None
      then show ?thesis
        using Some g Inr by (simp add: issue_certificate_handler_def Let_def generate_with_eligibility)
    next
      case (Some c)
      obtain lres db2 where l: "logActivity db1 actor Generate_certificate
          [(''certificateNumber'', issued_number now0 rid)] ''certificate'' (cert_id c) = (lres, db2)"
        by (cases "logActivity db1 actor Generate_certificate
          [(''certificateNumber'', issued_number now0 rid)] ''certificate'' (cert_id c)")
      show ?thesis
        using \<open>utils_generateCertificate toDataURL (verification_url protocol host (issued_number now0 rid)) = Some qr\<close>
          g Inr Some l
        by (cases lres)
           (simp_all add: issue_certificate_handler_def Let_def generate_with_eligibility
              logActivity_with_eligibility)
    qed
  qed
qed

lemma digit_char_not_NUL: "d < 10 \<Longrightarrow> CHR 0x00 \<noteq> digit_char d"
proof -
  assume "d < 10"
  then have "d \<in> {0,1,2,3,4,5,6,7,8,9}" by auto
  then show ?thesis by (auto simp: digit_char_def)
qed

lemma string_of_nat_text: "CHR 0x00 \<notin> set (string_of_nat n)"
proof (induction n rule: string_of_nat.induct)
  case (1 n)
  show ?case
  proof (cases "n < 10")
    case True
    then show ?thesis
      by (simp add: string_of_nat.simps[of n] digit_char_not_NUL)
  next
    case False
    have "n mod 10 < 10" by simp
    then have "CHR 0x00 \<noteq> digit_char (n mod 10)" by (rule digit_char_not_NUL)
    then show ?thesis
      using False 1 by (simp add: string_of_nat.simps[of n])
  qed
qed

lemma issued_number_text: "pg_text (issued_number now0 rid)"
  using string_of_nat_text by (auto simp: pg_text_def issued_number_def string_of_int_def)

lemma issue_inserts:
  assumes r: "rid \<in> set (map reg_id (eventRegistrations db))"
    and n: "rid \<notin> set (map registrationId (certificates db))"
    and q: "toDataURL (verification_url protocol host (issued_number now0 rid)) = Some qr"
    and f: "issued_number now0 rid \<notin> set (map certificateNumber (certificates db))"
    and l: "length (issued_number now0 rid) \<le> 50"
    and i: "certificates_id_seq db + 1 \<notin> set (map cert_id (certificates db))"
    and u: "actor \<in> set (map user_id (users db))"
  shows "\<exists>row. row = \<lparr>cert_id = certificates_id_seq db + 1, registrationId = rid,
                       certificateNumber = issued_number now0 rid, qrCode = qr, issuedDate = now1,
                       isRevoked = False, revokedReason = None, revokedDate = None,
                       revokedById = None, createdAt = now2, updatedAt = now2\<rparr> \<and>
           fst (issue_certificate_handler toDataURL db actor protocol host rid now0 now1 now2) = Created201 row \<and>
           certificates (snd (issue_certificate_handler toDataURL db actor protocol host rid now0 now1 now2)) =
             certificates db @ [row]"
proof -
  have fn: "find (\<lambda>c. registrationId c = rid) (certificates db) = None"
    using n by (simp add: find_None_registration)
  show ?thesis
    using r f l i u q issued_number_text[of now0 rid] char_count_le[of "issued_number now0 rid"]
    by (simp add: issue_certificate_handler_def utils_generateCertificate_def
        storage_generateCertificate_def fn insert_certificate_def logActivity_def Let_def)
qed

lemma issued_number_rejected: "\<not> validateCertificateNumber (issued_number now0 rid)"
  by (simp add: validateCertificateNumber_def regex_test_def certNumberRegex_def issued_number_def)

lemma issue_created_number:
  assumes n: "find (\<lambda>c. registrationId c = rid) (certificates db) = None"
    and c: "fst (issue_certificate_handler toDataURL db actor protocol host rid now0 now1 now2) = Created201 c"
  shows "certificateNumber c = issued_number now0 rid \<and>
         toDataURL (verification_url protocol host (certificateNumber c)) = Some (qrCode c)"
  using c
  by (auto simp: issue_certificate_handler_def utils_generateCertificate_def
        storage_generateCertificate_def n insert_certificate_def Let_def
      split: option.splits prod.splits sum.splits if_splits)

subsubsection \<open>The number generator\<close>

text \<open>
  The generator of the utilities, which no route calls, does produce numbers that
  \<open>validateCertificateNumber\<close> accepts: for a year of at least two digits, a month index
  from 0 to 11 and six characters of the alphabet.
\<close>

lemma digit_char_digit: "d < 10 \<Longrightarrow> class_matches Digit (digit_char d)"
proof -
  assume "d < 10"
  then have "d \<in> {0,1,2,3,4,5,6,7,8,9}" by auto
  then show ?thesis by (auto simp: digit_char_def)
qed

lemma string_of_nat_last:
  "\<exists>xs. string_of_nat n = xs @ [digit_char (n mod 10)]"
  by (cases "n < 10") (auto simp: string_of_nat.simps[of n])

lemma string_of_nat_last2:
  assumes "10 \<le> n"
  shows "\<exists>xs. string_of_nat n = xs @ [digit_char (n div 10 mod 10), digit_char (n mod 10)]"
proof -
  obtain xs where "string_of_nat (n div 10) = xs @ [digit_char (n div 10 mod 10)]"
    using string_of_nat_last by blast
  then show ?thesis
    using assms by (simp add: string_of_nat.simps[of n])
qed

lemma slice_last2_year:
  assumes "10 \<le> y"
  shows "slice_last2 (string_of_int y) =
           [digit_char (nat y div 10 mod 10), digit_char (nat y mod 10)]"
proof -
  have "10 \<le> nat y" using assms by simp
  then obtain xs where "string_of_nat (nat y) = xs @ [digit_char (nat y div 10 mod 10), digit_char (nat y mod 10)]"
    using string_of_nat_last2 by blast
  then show ?thesis
    using assms by (simp add: slice_last2_def string_of_int_def)
qed

lemma padStart2_month:
  assumes "0 \<le> m" "m < 12"
  shows "padStart2 (string_of_int (m + 1)) =
           [digit_char (nat (m + 1) div 10), digit_char (nat (m + 1) mod 10)]"
proof (cases "m + 1 < 10")
  case True
  then have "nat (m + 1) < 10" by simp
  then show ?thesis
    using assms
    by (simp add: padStart2_def string_of_int_def string_of_nat.simps[of "nat (m + 1)"] digit_char_def)
next
  case False
  then have g: "\<not> nat (m + 1) < 10" "nat (m + 1) div 10 < 10" using assms by auto
  show ?thesis
    using assms g
    by (simp add: padStart2_def string_of_int_def string_of_nat.simps[of "nat (m + 1)"]
        string_of_nat.simps[of "nat (m + 1) div 10"])
qed

lemma random_id_matches:
  "set r \<subseteq> set nanoid_alphabet \<Longrightarrow> list_all2 class_matches (replicate (length r) UpperAlnum) r"
  by (induction r) (auto simp: nanoid_alphabet_def)

lemma replicate_4: "replicate 4 x = [x, x, x, x]"
  by (simp add: numeral_eq_Suc)

lemma generateCertificateNumber_wellformed:
  assumes y: "10 \<le> fullYear"
    and m: "0 \<le> month0" "month0 < 12"
    and l: "length random_id = 6"
    and a: "set random_id \<subseteq> set nanoid_alphabet"
  shows "validateCertificateNumber (generateCertificateNumber fullYear month0 random_id)"
proof -
  have r: "list_all2 class_matches (replicate 6 UpperAlnum) random_id"
    using random_id_matches[OF a] l by simp
  have d: "class_matches Digit (digit_char (nat fullYear div 10 mod 10))"
    "class_matches Digit (digit_char (nat fullYear mod 10))"
    "class_matches Digit (digit_char (nat (month0 + 1) div 10))"
    "class_matches Digit (digit_char (nat (month0 + 1) mod 10))"
    using m by (simp_all add: digit_char_digit del: class_matches.simps)
  have "list_all2 class_matches
          (map Lit ''MEDEVENT-'' @ [Digit, Digit, Digit, Digit] @ [Lit (CHR ''-'')])
          (''MEDEVENT-'' @ [digit_char (nat fullYear div 10 mod 10), digit_char (nat fullYear mod 10)] @
           [digit_char (nat (month0 + 1) div 10), digit_char (nat (month0 + 1) mod 10)] @ ''-'')"
    using d by (simp del: class_matches.simps(2))
  then have "list_all2 class_matches
          ((map Lit ''MEDEVENT-'' @ [Digit, Digit, Digit, Digit] @ [Lit (CHR ''-'')]) @ replicate 6 UpperAlnum)
          ((''MEDEVENT-'' @ [digit_char (nat fullYear div 10 mod 10), digit_char (nat fullYear mod 10)] @
           [digit_char (nat (month0 + 1) div 10), digit_char (nat (month0 + 1) mod 10)] @ ''-'') @ random_id)"
    using r by (rule list_all2_appendI)
  then show ?thesis
    by (simp add: validateCertificateNumber_def regex_test_def certNumberRegex_def replicate_4
        generateCertificateNumber_def slice_last2_year[OF y] padStart2_month[OF m])
qed

subsection \<open>Idempotent issuance\<close>

text \<open>
  Claim C2. When the first certificate of a registration is active,
  \<open>storage.generateCertificate\<close> returns that row and leaves the database as it is,
  whatever image and number the caller passes. The route handler then answers 201 with
  that row (when the image was rendered and the acting user exists so that the activity
  row is accepted) and the table of certificates is unchanged.
\<close>

theorem idempotent_issuance:
  assumes "find (\<lambda>c. registrationId c = rid) (certificates db) = Some c"
    and "\<not> isRevoked c"
  shows "storage_generateCertificate db rid qr num now1 now2 = (Inr (Some c), db) \<and>
         (toDataURL (verification_url protocol host (issued_number now0 rid)) \<noteq> None \<and>
          actor \<in> set (map user_id (users db)) \<longrightarrow>
            fst (issue_certificate_handler toDataURL db actor protocol host rid now0 now1 now2) = Created201 c \<and>
            certificates (snd (issue_certificate_handler toDataURL db actor protocol host rid now0 now1 now2)) =
              certificates db)"
proof -
  have s: "\<And>qr num. storage_generateCertificate db rid qr num now1 now2 = (Inr (Some c), db)"
    using assms by (rule generate_active_case)
  show ?thesis
    by (auto simp: s issue_certificate_handler_def utils_generateCertificate_def logActivity_def Let_def)
qed

theorem idempotent_issuance_witness:
  "storage_generateCertificate db_active 42 ''another image'' ''CERT-9999-42'' 9001 9002 =
     (Inr (Some cert_active), db_active) \<and>
   fst (issue_certificate_handler sample_toDataURL db_active 2 ''https'' ''h.org'' 42 9000 9001 9002) =
     Created201 cert_active \<and>
   certificates (snd (issue_certificate_handler sample_toDataURL db_active 2 ''https'' ''h.org'' 42 9000 9001 9002)) =
     [cert_active]"
proof -
  have f: "find (\<lambda>c. registrationId c = 42) (certificates db_active) = Some cert_active"
    by (simp add: db_active_def cert_active_def)
  have a: "\<not> isRevoked cert_active"
    by (simp add: cert_active_def)
  have q: "sample_toDataURL (verification_url ''https'' ''h.org'' (issued_number 9000 42)) \<noteq> None"
    by (simp add: sample_toDataURL_def)
  have u: "(2::int) \<in> set (map user_id (users db_active))"
    by (simp add: db_active_def db_registered_def)
  have c: "certificates db_active = [cert_active]"
    by (simp add: db_active_def)
  show ?thesis
    using idempotent_issuance [OF f a, of "''another image''" "''CERT-9999-42''" 9001 9002
        sample_toDataURL "''https''" "''h.org''" 9000 2] q u c
    by simp
qed

subsection \<open>Reissue after revocation\<close>

text \<open>
  Claim C5. When the first certificate of a registration is revoked (ids being unique,
  as the primary key makes them), \<open>storage.generateCertificate\<close> returns that row with
  \<open>isRevoked\<close> false, the three revocation columns null, and \<open>qrCode\<close>, \<open>issuedDate\<close> and
  \<open>updatedAt\<close> refreshed. Every other column of the row (\<open>id\<close>, \<open>registrationId\<close>,
  \<open>certificateNumber\<close>, \<open>createdAt\<close>) keeps its value, every other row is unchanged,
  and so is every other table.
\<close>

theorem reissue_frame:
  assumes f: "find (\<lambda>c. registrationId c = rid) (certificates db) = Some c"
    and r: "isRevoked c"
    and d: "distinct (map cert_id (certificates db))"
  shows "\<exists>c'. storage_generateCertificate db rid qr num now1 now2 =
                 (Inr (Some c'),
                  db\<lparr>certificates := map (\<lambda>x. if x = c then c' else x) (certificates db)\<rparr>) \<and>
              c' = c\<lparr>isRevoked := False, revokedReason := None, revokedDate := None,
                     revokedById := None, qrCode := qr, issuedDate := now1, updatedAt := now2\<rparr> \<and>
              cert_id c' = cert_id c \<and> registrationId c' = registrationId c \<and>
              certificateNumber c' = certificateNumber c \<and> createdAt c' = createdAt c"
proof -
  have m: "c \<in> set (certificates db)" using f by (simp add: find_Some_mem)
  have e: "map (\<lambda>x. if cert_id x = cert_id c then reissue_set qr now1 now2 x else x) (certificates db) =
           map (\<lambda>x. if x = c then reissue_set qr now1 now2 c else x) (certificates db)"
    using same_id_same_row[OF d m] by (auto intro!: map_cong)
  show ?thesis
    using generate_reissue_case[OF f r d, of qr num now1 now2] e
    by (simp add: reissue_set_def)
qed

theorem reissue_frame_witness:
  "storage_generateCertificate db_revoked 42 ''new image'' ''CERT-5000-42'' 5001 5002 =
     (Inr (Some (cert_active\<lparr>qrCode := ''new image'', issuedDate := 5001, updatedAt := 5002\<rparr>)),
      db_revoked\<lparr>certificates :=
        [cert_active\<lparr>qrCode := ''new image'', issuedDate := 5001, updatedAt := 5002\<rparr>]\<rparr>)"
proof -
  have f: "find (\<lambda>c. registrationId c = 42) (certificates db_revoked) = Some cert_revoked"
    by (simp add: db_revoked_def cert_revoked_def cert_active_def)
  have r: "isRevoked cert_revoked"
    by (simp add: cert_revoked_def)
  have d: "distinct (map cert_id (certificates db_revoked))"
    by (simp add: db_revoked_def)
  show ?thesis
    using reissue_frame [OF f r d, of "''new image''" "''CERT-5000-42''" 5001 5002]
    by (auto simp: db_revoked_def cert_revoked_def cert_active_def)
qed

subsection \<open>One certificate row per registration\<close>

text \<open>
  Claim C1, as stated, says that no operation deletes a certificate row. It does not
  hold: \<open>storage.deleteEvent\<close> removes, through the cascades that the schema declares,
  the certificates of the registrations of the deleted event. Here event 1 is deleted and
  the certificate of registration 42 goes with it.
\<close>

theorem delete_event_removes_certificate:
  "certificates db_active = [cert_active] \<and> certificates (apply_op (DeleteEvent 1) db_active) = []"
  by (simp add: db_active_def db_registered_def sample_registration_def cert_active_def
      storage_deleteEvent_def pg_integer_def)

text \<open>
  Claim C1, amended. Starting from a table with at most one certificate per
  registration, every sequence of \<open>generateCertificate\<close>, \<open>revokeCertificate\<close> and
  \<open>deleteEvent\<close> calls, each run to its end before the next, leaves at most one
  certificate per registration. A sequence without \<open>deleteEvent\<close> keeps every row: the ids
  before are a prefix of the ids after. \<open>generateCertificate\<close> has three cases on the first
  row of the registration. With no row, it inserts when the database accepts the
  insertion (the image being a text): it returns the new active row, which has the next
  id of the sequence, the given registration, number and image, and which is appended to
  the table; when the insertion is not accepted, the call fails and the table is
  unchanged. With a revoked row, the rows with its id are rewritten in place. With an
  active row, the row is returned and the database is unchanged. And \<open>deleteEvent\<close>, when
  the database accepts the deletion, removes the event with the given id, the
  registrations of that event, and exactly the certificates of those registrations; when
  the deletion is rejected, it fails and changes nothing.
\<close>

theorem one_certificate_row_per_registration:
  assumes "one_row_per_registration db"
  shows "one_row_per_registration (run_ops ops db) \<and>
         (list_all (\<lambda>op. \<not> is_delete op) ops \<longrightarrow>
            (\<exists>r. map cert_id (certificates (run_ops ops db)) = map cert_id (certificates db) @ r)) \<and>
         (case find (\<lambda>c. registrationId c = rid) (certificates db) of
            None \<Rightarrow>
              (insert_accepted db rid num \<and> pg_text qr \<longrightarrow>
                 storage_generateCertificate db rid qr num now1 now2 =
                     (Inr (Some \<lparr>cert_id = certificates_id_seq db + 1, registrationId = rid,
                                  certificateNumber = num, qrCode = qr, issuedDate = now1,
                                  isRevoked = False, revokedReason = None, revokedDate = None,
                                  revokedById = None, createdAt = now2, updatedAt = now2\<rparr>),
                      db\<lparr>certificates_id_seq := certificates_id_seq db + 1,
                         certificates := certificates db @
                           [\<lparr>cert_id = certificates_id_seq db + 1, registrationId = rid,
                             certificateNumber = num, qrCode = qr, issuedDate = now1,
                             isRevoked = False, revokedReason = None, revokedDate = None,
                             revokedById = None, createdAt = now2, updatedAt = now2\<rparr>]\<rparr>)) \<and>
              (\<not> insert_accepted db rid num \<longrightarrow>
                 (\<exists>e. fst (storage_generateCertificate db rid qr num now1 now2) = Inl e) \<and>
                 certificates (snd (storage_generateCertificate db rid qr num now1 now2)) =
                   certificates db)
          | Some c \<Rightarrow>
              if isRevoked c
              then pg_text qr \<longrightarrow>
                   certificates (snd (storage_generateCertificate db rid qr num now1 now2)) =
                     map (\<lambda>x. if cert_id x = cert_id c then reissue_set qr now1 now2 x else x)
                       (certificates db)
              else storage_generateCertificate db rid qr num now1 now2 = (Inr (Some c), db)) \<and>
         (delete_accepted db i \<longrightarrow>
            events (snd (storage_deleteEvent db i)) = filter (\<lambda>e. event_id e \<noteq> i) (events db) \<and>
            eventRegistrations (snd (storage_deleteEvent db i)) =
              filter (\<lambda>r. \<not> (eventId r = i \<and> i \<in> set (map event_id (events db))))
                (eventRegistrations db) \<and>
            certificates (snd (storage_deleteEvent db i)) =
              filter (\<lambda>c. \<not> (\<exists>r \<in> set (eventRegistrations db).
                                reg_id r = registrationId c \<and> eventId r = i \<and>
                                i \<in> set (map event_id (events db))))
                (certificates db)) \<and>
         (\<not> delete_accepted db i \<longrightarrow>
            (\<exists>e. fst (storage_deleteEvent db i) = Inl e) \<and> snd (storage_deleteEvent db i) = db)"
proof -
  have a: "one_row_per_registration (run_ops ops db)"
    using assms by (rule run_ops_one_row)
  have b: "list_all (\<lambda>op. \<not> is_delete op) ops \<longrightarrow>
            (\<exists>r. map cert_id (certificates (run_ops ops db)) = map cert_id (certificates db) @ r)"
    using run_ops_keeps_rows by blast
  have c: "(case find (\<lambda>c. registrationId c = rid) (certificates db) of
            None \<Rightarrow>
              (insert_accepted db rid num \<and> pg_text qr \<longrightarrow>
                 storage_generateCertificate db rid qr num now1 now2 =
                     (Inr (Some \<lparr>cert_id = certificates_id_seq db + 1, registrationId = rid,
                                  certificateNumber = num, qrCode = qr, issuedDate = now1,
                                  isRevoked = False, revokedReason = None, revokedDate = None,
                                  revokedById = None, createdAt = now2, updatedAt = now2\<rparr>),
                      db\<lparr>certificates_id_seq := certificates_id_seq db + 1,
                         certificates := certificates db @
                           [\<lparr>cert_id = certificates_id_seq db + 1, registrationId = rid,
                             certificateNumber = num, qrCode = qr, issuedDate = now1,
                             isRevoked = False, revokedReason = None, revokedDate = None,
                             revokedById = None, createdAt = now2, updatedAt = now2\<rparr>]\<rparr>)) \<and>
              (\<not> insert_accepted db rid num \<longrightarrow>
                 (\<exists>e. fst (storage_generateCertificate db rid qr num now1 now2) = Inl e) \<and>
                 certificates (snd (storage_generateCertificate db rid qr num now1 now2)) =
                   certificates db)
          | Some c \<Rightarrow>
              if isRevoked c
              then pg_text qr \<longrightarrow>
                   certificates (snd (storage_generateCertificate db rid qr num now1 now2)) =
                     map (\<lambda>x. if cert_id x = cert_id c then reissue_set qr now1 now2 x else x)
                       (certificates db)
              else storage_generateCertificate db rid qr num now1 now2 = (Inr (Some c), db))"
  proof (cases "find (\<lambda>c. registrationId c = rid) (certificates db)")
    case None
    show ?thesis
    proof (cases "insert_accepted db rid num")
      case True
      then show ?thesis
        using None generate_inserts_row[OF None True, of qr now1 now2] by simp
    next
      case False
      then show ?thesis
        using None generate_rejects_row[OF None False, of qr now1 now2] by simp
    qed
  next
    case (Some c)
    then show ?thesis
      by (simp add: storage_generateCertificate_def update_certificates_where_id_def)
  qed
  from a b c deleteEvent_tables[of db i] deleteEvent_rejected[of db i] show ?thesis by blast
qed

theorem one_certificate_row_per_registration_witness:
  "one_row_per_registration db_registered \<and>
   storage_generateCertificate db_registered 42
       ''data:image/png;base64,https://h.org/certificates/verify/CERT-1000-42'' ''CERT-1000-42''
       1001 1002 = (Inr (Some cert_active), db_active) \<and>
   one_row_per_registration
     (run_ops [Generate 42 ''image 1'' ''CERT-1000-42'' 1001 1002,
               Generate 42 ''image 2'' ''CERT-3000-42'' 3001 3002,
               Revoke 1 2 ''duplicate issuance'' 4000 4001,
               Generate 42 ''image 3'' ''CERT-5000-42'' 5001 5002] db_registered) \<and>
   map registrationId (certificates
     (run_ops [Generate 42 ''image 1'' ''CERT-1000-42'' 1001 1002,
               Generate 42 ''image 2'' ''CERT-3000-42'' 3001 3002,
               Revoke 1 2 ''duplicate issuance'' 4000 4001,
               Generate 42 ''image 3'' ''CERT-5000-42'' 5001 5002] db_registered)) = [42] \<and>
   one_row_per_registration db_active \<and>
   certificates (snd (storage_deleteEvent db_active 1)) = [] \<and>
   eventRegistrations (snd (storage_deleteEvent db_active 1)) = []"
proof -
  have h1: "one_row_per_registration db_registered"
    by (simp add: one_row_per_registration_def db_registered_def)
  have h2: "one_row_per_registration db_active"
    by (simp add: one_row_per_registration_def db_active_def)
  have n: "find (\<lambda>c. registrationId c = 42) (certificates db_registered) = None"
    by (simp add: db_registered_def)
  have acc: "insert_accepted db_registered 42 ''CERT-1000-42''"
    by (simp add: insert_accepted_def pg_text_def char_count_def sample_defs)
  have row: "db_registered\<lparr>certificates_id_seq := certificates_id_seq db_registered + 1,
               certificates := certificates db_registered @ [cert_active]\<rparr> = db_active"
    by (simp add: sample_defs)
  have e: "map registrationId (certificates
     (run_ops [Generate 42 ''image 1'' ''CERT-1000-42'' 1001 1002,
               Generate 42 ''image 2'' ''CERT-3000-42'' 3001 3002,
               Revoke 1 2 ''duplicate issuance'' 4000 4001,
               Generate 42 ''image 3'' ''CERT-5000-42'' 5001 5002] db_registered)) = [42]"
    by (simp add: handler_defs sample_defs)
  have t1: "one_row_per_registration
     (run_ops [Generate 42 ''image 1'' ''CERT-1000-42'' 1001 1002,
               Generate 42 ''image 2'' ''CERT-3000-42'' 3001 3002,
               Revoke 1 2 ''duplicate issuance'' 4000 4001,
               Generate 42 ''image 3'' ''CERT-5000-42'' 5001 5002] db_registered)"
    using one_certificate_row_per_registration [OF h1] by blast
  have t2: "storage_generateCertificate db_registered 42
       ''data:image/png;base64,https://h.org/certificates/verify/CERT-1000-42'' ''CERT-1000-42''
       1001 1002 = (Inr (Some cert_active), db_active)"
    using one_certificate_row_per_registration [OF h1, where rid = 42
        and num = "''CERT-1000-42''"
        and qr = "''data:image/png;base64,https://h.org/certificates/verify/CERT-1000-42''"
        and ?now1.0 = 1001 and ?now2.0 = 1002] row
    by (simp add: n acc pg_text_def) (simp add: sample_defs)
  have t3: "certificates (snd (storage_deleteEvent db_active 1)) = [] \<and>
            eventRegistrations (snd (storage_deleteEvent db_active 1)) = []"
    using one_certificate_row_per_registration [OF h2, where i = 1]
    by (simp add: sample_defs delete_accepted_def pg_integer_def)
  show ?thesis
    using h1 h2 e t1 t2 t3 by blast
qed

subsection \<open>Revocation columns\<close>

text \<open>
  Claim C8. If every certificate row is consistent (revoked with reason, date and
  revoker all present, or active with all three null), then so is every row after any
  single ledger operation and after any sequence of them: insertion, reissue after
  revocation, revocation, and the deletion of an event.
\<close>

theorem revocation_fields_invariant:
  assumes "list_all revocation_consistent (certificates db)"
  shows "list_all revocation_consistent (certificates (run_ops ops db)) \<and>
         list_all revocation_consistent (certificates (apply_op op db))"
  using assms by (simp add: run_ops_consistent apply_op_consistent)

theorem revocation_fields_invariant_witness:
  "list_all revocation_consistent (certificates db_revoked) \<and>
   list_all revocation_consistent
     (certificates (run_ops [Generate 42 ''image 3'' ''CERT-5000-42'' 5001 5002,
                             Revoke 1 2 ''issued in error'' 6000 6001] db_revoked)) \<and>
   map revokedReason
     (certificates (run_ops [Generate 42 ''image 3'' ''CERT-5000-42'' 5001 5002,
                             Revoke 1 2 ''issued in error'' 6000 6001] db_revoked)) =
     [Some ''issued in error'']"
proof -
  have h: "list_all revocation_consistent (certificates db_revoked)"
    by (simp add: revocation_consistent_def db_revoked_def cert_revoked_def)
  have e: "map revokedReason
     (certificates (run_ops [Generate 42 ''image 3'' ''CERT-5000-42'' 5001 5002,
                             Revoke 1 2 ''issued in error'' 6000 6001] db_revoked)) =
     [Some ''issued in error'']"
    by (simp add: handler_defs sample_defs)
  show ?thesis
    using h e revocation_fields_invariant [OF h,
        of "[Generate 42 ''image 3'' ''CERT-5000-42'' 5001 5002,
             Revoke 1 2 ''issued in error'' 6000 6001]"]
    by blast
qed

subsection \<open>Public verification\<close>

text \<open>
  Claim C3, as stated, says that an input that \<open>validateCertificateNumber\<close> rejects is
  answered "not found" without a ledger lookup. The handler never calls
  \<open>validateCertificateNumber\<close>; it looks every input up. The numbers that issuance
  stores have the form \<open>CERT-<ms>-<registration>\<close>, which the format check rejects, and
  such an input is answered as valid when a row has that number.
\<close>

theorem verify_finds_malformed_number:
  "\<not> validateCertificateNumber ''CERT-1000-42'' \<and>
   fst (verify_certificate_handler db_active ''CERT-1000-42'') =
     Valid200 \<lparr>pc_certificateNumber = ''CERT-1000-42'', pc_issuedDate = 1001,
               pc_event = \<lparr>pe_title = ''Cardiology Day'', pe_startDate = 100, pe_endDate = 200\<rparr>,
               pc_user = \<lparr>pu_fullName = ''Dr A'', pu_organization = Some ''Hospital'',
                           pu_position = None\<rparr>\<rparr>"
  by (simp add: validateCertificateNumber_def regex_test_def certNumberRegex_def
      handler_defs sample_defs)

text \<open>
  Claim C3, amended. For an input that \<open>validateCertificateNumber\<close> rejects, the handler
  does the ledger lookup, as for any input. When the input holds the character U+0000
  the database rejects the lookup and the answer is 500. Otherwise, when no certificate
  row has that number, the answer is 404 \<open>{message: "Certificate not found", valid:
  false}\<close>. When a row has that number and is revoked, the answer is the revoked one, with
  the reason and the date of the row. When the row is active, the answer is the valid
  one, with the number and the issue date of the row, the title and dates of the event
  and the name, organization and position of the holder; it is 500 only when the
  registration, the event or the user of the row is missing, which the foreign keys
  exclude. The database is unchanged but for the activity row of a valid answer.
\<close>

theorem verify_malformed_not_found:
  assumes "\<not> validateCertificateNumber number"
  shows "(\<not> pg_text number \<longrightarrow> verify_certificate_handler db number = (VerifyFailed500, db)) \<and>
         (pg_text number \<longrightarrow>
            (case find (\<lambda>c. certificateNumber c = number) (certificates db) of
               None \<Rightarrow> verify_certificate_handler db number = (NotFound404, db)
             | Some c \<Rightarrow>
                 if isRevoked c
                 then verify_certificate_handler db number =
                        (Revoked200 (revokedReason c) (revokedDate c), db)
                 else
                   (case find (\<lambda>r. reg_id r = registrationId c) (eventRegistrations db) of
                      None \<Rightarrow> verify_certificate_handler db number = (VerifyFailed500, db)
                    | Some r \<Rightarrow>
                        (case find (\<lambda>u. user_id u = userId r) (users db) of
                           None \<Rightarrow> verify_certificate_handler db number = (VerifyFailed500, db)
                         | Some u \<Rightarrow>
                             (case find (\<lambda>e. event_id e = eventId r) (events db) of
                                None \<Rightarrow>
                                  fst (verify_certificate_handler db number) = VerifyFailed500
                              | Some ev \<Rightarrow>
                                  verify_certificate_handler db number =
                                    (Valid200
                                       \<lparr>pc_certificateNumber = certificateNumber c,
                                        pc_issuedDate = issuedDate c,
                                        pc_event = \<lparr>pe_title = title ev,
                                                     pe_startDate = startDate ev,
                                                     pe_endDate = endDate ev\<rparr>,
                                        pc_user = \<lparr>pu_fullName = fullName u,
                                                    pu_organization = organization u,
                                                    pu_position = position u\<rparr>\<rparr>,
                                     db\<lparr>activityLogs := activityLogs db @
                                          [\<lparr>log_userId = userId r,
                                            log_action = Verify_certificate,
                                            log_details = [(''certificateNumber'', number)],
                                            log_resourceType = ''certificate'',
                                            log_resourceId = cert_id c\<rparr>]\<rparr>))))))"
proof (intro conjI impI)
  assume "\<not> pg_text number"
  then show "verify_certificate_handler db number = (VerifyFailed500, db)"
    by (rule verify_rejected_text)
next
  assume t: "pg_text number"
  show "(case find (\<lambda>c. certificateNumber c = number) (certificates db) of
               None \<Rightarrow> verify_certificate_handler db number = (NotFound404, db)
             | Some c \<Rightarrow>
                 if isRevoked c
                 then verify_certificate_handler db number =
                        (Revoked200 (revokedReason c) (revokedDate c), db)
                 else
                   (case find (\<lambda>r. reg_id r = registrationId c) (eventRegistrations db) of
                      None \<Rightarrow> verify_certificate_handler db number = (VerifyFailed500, db)
                    | Some r \<Rightarrow>
                        (case find (\<lambda>u. user_id u = userId r) (users db) of
                           None \<Rightarrow> verify_certificate_handler db number = (VerifyFailed500, db)
                         | Some u \<Rightarrow>
                             (case find (\<lambda>e. event_id e = eventId r) (events db) of
                                None \<Rightarrow>
                                  fst (verify_certificate_handler db number) = VerifyFailed500
                              | Some ev \<Rightarrow>
                                  verify_certificate_handler db number =
                                    (Valid200
                                       \<lparr>pc_certificateNumber = certificateNumber c,
                                        pc_issuedDate = issuedDate c,
                                        pc_event = \<lparr>pe_title = title ev,
                                                     pe_startDate = startDate ev,
                                                     pe_endDate = endDate ev\<rparr>,
                                        pc_user = \<lparr>pu_fullName = fullName u,
                                                    pu_organization = organization u,
                                                    pu_position = position u\<rparr>\<rparr>,
                                     db\<lparr>activityLogs := activityLogs db @
                                          [\<lparr>log_userId = userId r,
                                            log_action = Verify_certificate,
                                            log_details = [(''certificateNumber'', number)],
                                            log_resourceType = ''certificate'',
                                            log_resourceId = cert_id c\<rparr>]\<rparr>)))))"
  proof (cases "find (\<lambda>c. certificateNumber c = number) (certificates db)")
    case None
    then show ?thesis
      using t by (simp add: verify_certificate_handler_def getCertificateByNumber_def
          select_certificate_by_number_def)
  next
    case c: (Some c)
    show ?thesis
    proof (cases "find (\<lambda>r. reg_id r = registrationId c) (eventRegistrations db)")
      case None
      then show ?thesis
        using t c by (simp add: verify_certificate_handler_def getCertificateByNumber_def
            select_certificate_by_number_def Let_def)
    next
      case r: (Some r)
      show ?thesis
      proof (cases "find (\<lambda>u. user_id u = userId r) (users db)")
        case None
        then have "userId r \<notin> set (map user_id (users db))"
          by (induction "users db") (auto simp: find_None_iff)
        then show ?thesis
          using t c r None
          by (simp add: verify_certificate_handler_def getCertificateByNumber_def
              select_certificate_by_number_def logActivity_def Let_def)
      next
        case u: (Some u)
        then have m: "userId r \<in> set (map user_id (users db))"
          using find_Some_mem[of "\<lambda>u. user_id u = userId r" "users db" u] by force
        show ?thesis
          using t c r u m
          by (cases "find (\<lambda>e. event_id e = eventId r) (events db)")
             (simp_all add: verify_certificate_handler_def getCertificateByNumber_def
                select_certificate_by_number_def logActivity_def Let_def)
      qed
    qed
  qed
qed

theorem verify_malformed_not_found_witness:
  "\<not> validateCertificateNumber ''not-a-real-number'' \<and>
   verify_certificate_handler db_active ''not-a-real-number'' = (NotFound404, db_active) \<and>
   \<not> validateCertificateNumber [CHR ''C'', CHR 0x00] \<and>
   verify_certificate_handler db_active [CHR ''C'', CHR 0x00] = (VerifyFailed500, db_active) \<and>
   \<not> validateCertificateNumber ''CERT-1000-42'' \<and>
   verify_certificate_handler db_revoked ''CERT-1000-42'' =
     (Revoked200 (Some ''duplicate issuance'') (Some 2000), db_revoked)"
proof -
  have v1: "\<not> validateCertificateNumber ''not-a-real-number''"
    by (simp add: validateCertificateNumber_def regex_test_def certNumberRegex_def)
  have v2: "\<not> validateCertificateNumber [CHR ''C'', CHR 0x00]"
    by (simp add: validateCertificateNumber_def regex_test_def certNumberRegex_def)
  have v3: "\<not> validateCertificateNumber ''CERT-1000-42''"
    by (simp add: validateCertificateNumber_def regex_test_def certNumberRegex_def)
  have a1: "verify_certificate_handler db_active ''not-a-real-number'' = (NotFound404, db_active)"
    using verify_malformed_not_found [OF v1, of db_active]
    by (simp add: pg_text_def sample_defs)
  have a2: "verify_certificate_handler db_active [CHR ''C'', CHR 0x00] = (VerifyFailed500, db_active)"
    using verify_malformed_not_found [OF v2, of db_active]
    by (simp add: pg_text_def)
  have a3: "verify_certificate_handler db_revoked ''CERT-1000-42'' =
              (Revoked200 (Some ''duplicate issuance'') (Some 2000), db_revoked)"
    using verify_malformed_not_found [OF v3, of db_revoked]
    by (simp add: pg_text_def sample_defs)
  show ?thesis
    using v1 v2 v3 a1 a2 a3 by blast
qed

subsection \<open>Revocation of a revoked certificate\<close>

text \<open>
  Claim C4, as stated, says that revoking a revoked certificate fails and leaves its
  revocation columns unchanged. Neither \<open>storage.revokeCertificate\<close> nor the route
  handler reads \<open>isRevoked\<close>: the second revocation answers 200 and overwrites the reason
  and the date.
\<close>

theorem second_revoke_succeeds:
  "isRevoked cert_revoked \<and> revokedReason cert_revoked = Some ''duplicate issuance'' \<and>
   certificates db_revoked = [cert_revoked] \<and>
   fst (revoke_certificate_handler db_revoked 2 1 (Some ''again'') 3000 3001) =
     Revoked200OK (cert_revoked\<lparr>revokedReason := Some ''again'', revokedDate := Some 3000,
                                  updatedAt := 3001\<rparr>) \<and>
   certificates (snd (revoke_certificate_handler db_revoked 2 1 (Some ''again'') 3000 3001)) =
     [cert_revoked\<lparr>revokedReason := Some ''again'', revokedDate := Some 3000, updatedAt := 3001\<rparr>]"
  by (simp add: handler_defs sample_defs)

text \<open>
  Claim C4, amended. For a certificate row whose \<open>isRevoked\<close> is already true (ids being
  unique and the acting user existing), a second revocation whose reason is a text for
  the database succeeds: \<open>storage.revokeCertificate\<close> returns the row with \<open>isRevoked\<close>
  still true and with \<open>revokedReason\<close>, \<open>revokedDate\<close>, \<open>revokedById\<close> and \<open>updatedAt\<close>
  overwritten by the values of this call, and stores it in place of the old row; with a
  non-empty reason the route handler answers 200 with that row. No answer says that the
  certificate was already revoked. When the reason holds the character U+0000, the
  database rejects the update: the storage call fails, the handler answers 500, and the
  database, with the row and its four revocation columns, is unchanged.
\<close>

theorem revoke_overwrites_revoked:
  assumes m: "c \<in> set (certificates db)"
    and r: "isRevoked c"
    and d: "distinct (map cert_id (certificates db))"
    and u: "actor \<in> set (map user_id (users db))"
  shows "(pg_text reason \<longrightarrow>
           (\<exists>c'. c' = c\<lparr>isRevoked := True, revokedReason := Some reason, revokedDate := Some now1,
                         revokedById := Some actor, updatedAt := now2\<rparr> \<and>
                 storage_revokeCertificate db (cert_id c) actor reason now1 now2 =
                   (Inr (Some c'),
                    db\<lparr>certificates := map (\<lambda>x. if x = c then c' else x) (certificates db)\<rparr>) \<and>
                 (reason \<noteq> [] \<longrightarrow>
                    fst (revoke_certificate_handler db actor (cert_id c) (Some reason) now1 now2) =
                      Revoked200OK c' \<and>
                    certificates (snd (revoke_certificate_handler db actor (cert_id c) (Some reason)
                                         now1 now2)) =
                      map (\<lambda>x. if x = c then c' else x) (certificates db)))) \<and>
         (\<not> pg_text reason \<longrightarrow>
            storage_revokeCertificate db (cert_id c) actor reason now1 now2 = (Inl InvalidText, db) \<and>
            revoke_certificate_handler db actor (cert_id c) (Some reason) now1 now2 =
              (RevokeFailed500, db))"
proof (intro conjI impI)
  assume t: "pg_text reason"
  have e: "map (\<lambda>x. if cert_id x = cert_id c then revoke_set actor reason now1 now2 x else x) (certificates db) =
           map (\<lambda>x. if x = c then revoke_set actor reason now1 now2 c else x) (certificates db)"
    using same_id_same_row[OF d m] by (auto intro!: map_cong)
  have ne: "filter (\<lambda>x. cert_id x = cert_id c) (certificates db) \<noteq> []"
    using m by (auto simp: filter_empty_conv)
  have s: "storage_revokeCertificate db (cert_id c) actor reason now1 now2 =
             (Inr (Some (revoke_set actor reason now1 now2 c)),
              db\<lparr>certificates := map (\<lambda>x. if x = c then revoke_set actor reason now1 now2 c else x)
                                    (certificates db)\<rparr>)"
    using t u ne e first_row_updated[OF d m, of "revoke_set actor reason now1 now2"]
    by (simp add: storage_revokeCertificate_def update_certificates_where_id_def)
  have h: "reason \<noteq> [] \<longrightarrow>
             fst (revoke_certificate_handler db actor (cert_id c) (Some reason) now1 now2) =
               Revoked200OK (revoke_set actor reason now1 now2 c) \<and>
             certificates (snd (revoke_certificate_handler db actor (cert_id c) (Some reason)
                                  now1 now2)) =
               map (\<lambda>x. if x = c then revoke_set actor reason now1 now2 c else x) (certificates db)"
    using u by (simp add: revoke_certificate_handler_def s logActivity_def Let_def)
  show "\<exists>c'. c' = c\<lparr>isRevoked := True, revokedReason := Some reason, revokedDate := Some now1,
                         revokedById := Some actor, updatedAt := now2\<rparr> \<and>
                 storage_revokeCertificate db (cert_id c) actor reason now1 now2 =
                   (Inr (Some c'),
                    db\<lparr>certificates := map (\<lambda>x. if x = c then c' else x) (certificates db)\<rparr>) \<and>
                 (reason \<noteq> [] \<longrightarrow>
                    fst (revoke_certificate_handler db actor (cert_id c) (Some reason) now1 now2) =
                      Revoked200OK c' \<and>
                    certificates (snd (revoke_certificate_handler db actor (cert_id c) (Some reason)
                                         now1 now2)) =
                      map (\<lambda>x. if x = c then c' else x) (certificates db))"
    using s h by (simp add: revoke_set_def)
next
  assume t: "\<not> pg_text reason"
  then show "storage_revokeCertificate db (cert_id c) actor reason now1 now2 = (Inl InvalidText, db)"
    by (simp add: storage_revokeCertificate_def split: prod.splits)
next
  assume t: "\<not> pg_text reason"
  then have s: "storage_revokeCertificate db (cert_id c) actor reason now1 now2 = (Inl InvalidText, db)"
    by (simp add: storage_revokeCertificate_def split: prod.splits)
  have "reason \<noteq> []"
    using t by (auto simp: pg_text_def)
  then show "revoke_certificate_handler db actor (cert_id c) (Some reason) now1 now2 =
               (RevokeFailed500, db)"
    by (simp add: revoke_certificate_handler_def s)
qed

theorem revoke_overwrites_revoked_witness:
  "storage_revokeCertificate db_revoked 1 2 ''again'' 3000 3001 =
     (Inr (Some (cert_revoked\<lparr>revokedReason := Some ''again'', revokedDate := Some 3000,
                               updatedAt := 3001\<rparr>)),
      db_revoked\<lparr>certificates :=
        [cert_revoked\<lparr>revokedReason := Some ''again'', revokedDate := Some 3000,
                       updatedAt := 3001\<rparr>]\<rparr>) \<and>
   fst (revoke_certificate_handler db_revoked 2 1 (Some ''again'') 3000 3001) =
     Revoked200OK (cert_revoked\<lparr>revokedReason := Some ''again'', revokedDate := Some 3000,
                                  updatedAt := 3001\<rparr>) \<and>
   revoke_certificate_handler db_revoked 2 1 (Some [CHR ''a'', CHR 0x00, CHR ''b'']) 3000 3001 =
     (RevokeFailed500, db_revoked)"
proof -
  have m: "cert_revoked \<in> set (certificates db_revoked)"
    by (simp add: db_revoked_def)
  have r: "isRevoked cert_revoked"
    by (simp add: cert_revoked_def)
  have d: "distinct (map cert_id (certificates db_revoked))"
    by (simp add: db_revoked_def)
  have u: "(2::int) \<in> set (map user_id (users db_revoked))"
    by (simp add: db_revoked_def db_registered_def)
  have i: "cert_id cert_revoked = 1"
    by (simp add: cert_revoked_def cert_active_def)
  have a: "storage_revokeCertificate db_revoked 1 2 ''again'' 3000 3001 =
     (Inr (Some (cert_revoked\<lparr>revokedReason := Some ''again'', revokedDate := Some 3000,
                               updatedAt := 3001\<rparr>)),
      db_revoked\<lparr>certificates :=
        [cert_revoked\<lparr>revokedReason := Some ''again'', revokedDate := Some 3000,
                       updatedAt := 3001\<rparr>]\<rparr>) \<and>
   fst (revoke_certificate_handler db_revoked 2 1 (Some ''again'') 3000 3001) =
     Revoked200OK (cert_revoked\<lparr>revokedReason := Some ''again'', revokedDate := Some 3000,
                                  updatedAt := 3001\<rparr>)"
    using revoke_overwrites_revoked [OF m r d u, where reason = "''again''" and ?now1.0 = 3000
        and ?now2.0 = 3001] i
    by (auto simp: pg_text_def db_revoked_def cert_revoked_def cert_active_def)
  have b: "revoke_certificate_handler db_revoked 2 1 (Some [CHR ''a'', CHR 0x00, CHR ''b'']) 3000 3001 =
     (RevokeFailed500, db_revoked)"
    using revoke_overwrites_revoked [OF m r d u, where reason = "[CHR ''a'', CHR 0x00, CHR ''b'']"
        and ?now1.0 = 3000 and ?now2.0 = 3001] i
    by (simp add: pg_text_def)
  show ?thesis
    using a b by blast
qed

subsection \<open>Issued numbers and images\<close>

text \<open>
  Claim C7 says that every number stored at issuance is accepted by
  \<open>validateCertificateNumber\<close>. The route handler does not call
  \<open>generateCertificateNumber\<close>; it stores \<open>CERT-<Date.now()>-<registrationId>\<close>. So
  whenever the handler creates a certificate for a registration that had none, the stored
  number is that text, and \<open>validateCertificateNumber\<close> rejects it.
\<close>

theorem issued_number_not_wellformed:
  assumes "find (\<lambda>c. registrationId c = rid) (certificates db) = None"
    and "fst (issue_certificate_handler toDataURL db actor protocol host rid now0 now1 now2) = Created201 c"
  shows "certificateNumber c = issued_number now0 rid \<and>
         \<not> validateCertificateNumber (certificateNumber c)"
  using issue_created_number[OF assms] issued_number_rejected[of now0 rid] by simp

theorem issued_number_not_wellformed_witness:
  "certificateNumber cert_active = ''CERT-1000-42'' \<and>
   \<not> validateCertificateNumber (certificateNumber cert_active)"
proof -
  have n: "find (\<lambda>c. registrationId c = 42) (certificates db_registered) = None"
    by (simp add: db_registered_def)
  have c: "fst (issue_certificate_handler sample_toDataURL db_registered 2 ''https'' ''h.org'' 42
                  1000 1001 1002) = Created201 cert_active"
    by (simp add: handler_defs sample_defs issued_number_1000_42)
  have i: "issued_number 1000 42 = ''CERT-1000-42''"
    by (rule issued_number_1000_42)
  show ?thesis
    using issued_number_not_wellformed [OF n c] unfolding i by blast
qed

text \<open>
  Claim C6 says that the stored image encodes the verification URL of the stored number,
  also after a reissue. On the reissue branch the handler renders the URL of the number
  it has just built, and the storage function keeps the old number: here the row keeps
  \<open>CERT-1000-42\<close> and its new image is the one of the URL of \<open>CERT-5000-42\<close>, which is not
  the image of the URL of the stored number.
\<close>

theorem reissued_qr_encodes_other_number:
  "certificates db_revoked = [cert_revoked] \<and> isRevoked cert_revoked \<and>
   fst (issue_certificate_handler sample_toDataURL db_revoked 2 ''https'' ''h.org'' 42 5000 5001 5002) =
     Created201 (cert_active\<lparr>qrCode := ''data:image/png;base64,https://h.org/certificates/verify/CERT-5000-42'',
                              issuedDate := 5001, updatedAt := 5002\<rparr>) \<and>
   certificateNumber cert_active = ''CERT-1000-42'' \<and>
   sample_toDataURL (verification_url ''https'' ''h.org'' ''CERT-1000-42'') \<noteq>
     Some ''data:image/png;base64,https://h.org/certificates/verify/CERT-5000-42''"
  by (simp add: handler_defs sample_defs issued_number_5000_42)

subsection \<open>Eligibility\<close>

text \<open>
  Claim C9, as stated, says that issuance for a registration whose attendance is not
  confirmed fails with \<open>NotEligible\<close> and writes no certificate. The handler never reads
  the registration: for registration 42, pending and with attendance not confirmed, it
  answers 201 and the certificate is stored.
\<close>

theorem unconfirmed_registration_gets_certificate:
  "eventRegistrations db_registered = [sample_registration] \<and>
   reg_id sample_registration = 42 \<and>
   attendanceConfirmed sample_registration = Some False \<and>
   status sample_registration = Pending \<and>
   certificates db_registered = [] \<and>
   fst (issue_certificate_handler sample_toDataURL db_registered 2 ''https'' ''h.org'' 42 1000 1001 1002) =
     Created201 cert_active \<and>
   certificates (snd (issue_certificate_handler sample_toDataURL db_registered 2 ''https'' ''h.org'' 42
                        1000 1001 1002)) = [cert_active]"
  by (simp add: handler_defs sample_defs issued_number_1000_42)

text \<open>
  Claim C9, amended. Issuance does not consult eligibility. For every registration of the
  table that has no certificate yet (the image rendered, the number within fifty
  characters and unused, the next id unused, the acting user existing) the handler
  answers 201 with a new active certificate of that registration and appends it to the
  table; and it does exactly the same whatever the \<open>attendanceConfirmed\<close> and \<open>status\<close>
  columns of the registrations hold.
\<close>

theorem issuance_ignores_eligibility:
  assumes r: "rid \<in> set (map reg_id (eventRegistrations db))"
    and n: "rid \<notin> set (map registrationId (certificates db))"
    and q: "toDataURL (verification_url protocol host (issued_number now0 rid)) = Some qr"
    and f: "issued_number now0 rid \<notin> set (map certificateNumber (certificates db))"
    and l: "length (issued_number now0 rid) \<le> 50"
    and i: "certificates_id_seq db + 1 \<notin> set (map cert_id (certificates db))"
    and u: "actor \<in> set (map user_id (users db))"
  shows "\<exists>row. registrationId row = rid \<and> \<not> isRevoked row \<and>
           fst (issue_certificate_handler toDataURL db actor protocol host rid now0 now1 now2) =
             Created201 row \<and>
           certificates (snd (issue_certificate_handler toDataURL db actor protocol host rid now0 now1 now2)) =
             certificates db @ [row] \<and>
           fst (issue_certificate_handler toDataURL (with_eligibility a s db) actor protocol host rid
                  now0 now1 now2) = Created201 row \<and>
           certificates (snd (issue_certificate_handler toDataURL (with_eligibility a s db) actor protocol
                                host rid now0 now1 now2)) = certificates db @ [row]"
proof -
  obtain row where row: "row = \<lparr>cert_id = certificates_id_seq db + 1, registrationId = rid,
                       certificateNumber = issued_number now0 rid, qrCode = qr, issuedDate = now1,
                       isRevoked = False, revokedReason = None, revokedDate = None,
                       revokedById = None, createdAt = now2, updatedAt = now2\<rparr>"
      and h: "fst (issue_certificate_handler toDataURL db actor protocol host rid now0 now1 now2) = Created201 row"
      and c: "certificates (snd (issue_certificate_handler toDataURL db actor protocol host rid now0 now1 now2)) =
                certificates db @ [row]"
    using issue_inserts[where toDataURL = toDataURL and protocol = protocol and host = host
        and ?now1.0 = now1 and ?now2.0 = now2, OF r n q f l i u]
    by blast
  have w: "certificates (with_eligibility a s
             (snd (issue_certificate_handler toDataURL db actor protocol host rid now0 now1 now2))) =
           certificates db @ [row]"
    using c by (simp add: with_eligibility_def)
  show ?thesis
    using row h c w by (intro exI[of _ row]) (simp add: issue_with_eligibility)
qed

theorem issuance_ignores_eligibility_witness:
  "fst (issue_certificate_handler sample_toDataURL db_registered 2 ''https'' ''h.org'' 42 1000 1001 1002) =
     Created201 cert_active \<and>
   fst (issue_certificate_handler sample_toDataURL
          (with_eligibility (\<lambda>r. None) (\<lambda>r. Rejected) db_registered) 2 ''https'' ''h.org'' 42
          1000 1001 1002) = Created201 cert_active"
proof -
  have r: "(42::int) \<in> set (map reg_id (eventRegistrations db_registered))"
    by (simp add: db_registered_def sample_registration_def)
  have n: "(42::int) \<notin> set (map registrationId (certificates db_registered))"
    by (simp add: db_registered_def)
  have k: "issued_number 1000 42 = ''CERT-1000-42''"
    by (rule issued_number_1000_42)
  have q: "sample_toDataURL (verification_url ''https'' ''h.org'' (issued_number 1000 42)) =
             Some (''data:image/png;base64,'' @ verification_url ''https'' ''h.org'' (issued_number 1000 42))"
    by (simp add: sample_toDataURL_def)
  have f: "issued_number 1000 42 \<notin> set (map certificateNumber (certificates db_registered))"
    by (simp add: db_registered_def)
  have l: "length (issued_number 1000 42) \<le> 50"
    by (simp add: k)
  have i: "certificates_id_seq db_registered + 1 \<notin> set (map cert_id (certificates db_registered))"
    by (simp add: db_registered_def)
  have u: "(2::int) \<in> set (map user_id (users db_registered))"
    by (simp add: db_registered_def)
  have e: "fst (issue_certificate_handler sample_toDataURL db_registered 2 ''https'' ''h.org'' 42
                  1000 1001 1002) = Created201 cert_active"
    by (simp add: handler_defs sample_defs issued_number_1000_42)
  show ?thesis
    using issuance_ignores_eligibility [where toDataURL = sample_toDataURL and protocol = "''https''"
        and host = "''h.org''" and ?now1.0 = 1001 and ?now2.0 = 1002 and a = "\<lambda>r. None"
        and s = "\<lambda>r. Rejected", OF r n q f l i u] e
    by auto
qed

subsection \<open>What public verification discloses\<close>

text \<open>
  Claim C10. The answer of the verification handler is the same whatever the \<open>email\<close>
  column of the users holds: two databases that differ only in e-mail addresses get the
  same answer for every number. And in the answer for a valid certificate, the holder
  summary is made of the \<open>fullName\<close>, \<open>organization\<close> and \<open>position\<close> of a user row; the
  answer type has no other field for the holder.
\<close>

theorem verify_hides_email:
  "fst (verify_certificate_handler (with_emails f db) number) =
     fst (verify_certificate_handler db number) \<and>
   (\<forall>pc. fst (verify_certificate_handler db number) = Valid200 pc \<longrightarrow>
      (\<exists>u. u \<in> set (users db) \<and>
         pc_user pc = \<lparr>pu_fullName = fullName u, pu_organization = organization u,
                        pu_position = position u\<rparr>))"
  using verify_with_emails[of f db number] verify_valid_user[of db number] by blast

theorem verify_hides_email_witness:
  "fst (verify_certificate_handler (with_emails (\<lambda>u. ''someone@else.org'') db_active) ''CERT-1000-42'') =
     Valid200 \<lparr>pc_certificateNumber = ''CERT-1000-42'', pc_issuedDate = 1001,
               pc_event = \<lparr>pe_title = ''Cardiology Day'', pe_startDate = 100, pe_endDate = 200\<rparr>,
               pc_user = \<lparr>pu_fullName = ''Dr A'', pu_organization = Some ''Hospital'',
                           pu_position = None\<rparr>\<rparr>"
proof -
  have e: "fst (verify_certificate_handler db_active ''CERT-1000-42'') =
     Valid200 \<lparr>pc_certificateNumber = ''CERT-1000-42'', pc_issuedDate = 1001,
               pc_event = \<lparr>pe_title = ''Cardiology Day'', pe_startDate = 100, pe_endDate = 200\<rparr>,
               pc_user = \<lparr>pu_fullName = ''Dr A'', pu_organization = Some ''Hospital'',
                           pu_position = None\<rparr>\<rparr>"
    by (simp add: handler_defs sample_defs)
  show ?thesis
    using verify_hides_email [of "\<lambda>u. ''someone@else.org''" db_active "''CERT-1000-42''"] e
    by simp
qed

end
